theory Spec2Isabelle
  imports Main
begin

section \<open>Entities handled by the guild controller\<close>

text \<open>
  Modelled from the spec: the entity declarations of Guild, GuildSettings, GuildUser,
  GuildSuggestion, GuildSupportTicket, GuildSelfAssignableRole and Song are not among
  the sources (the controller only imports them). Each record holds the key attributes
  of the data-model table. The owning guild of a child is kept beside the child in the
  store (a row is a pair of guild id and child), and the position of a song is its place
  in the playlist. An automatically assigned id is \<open>None\<close> until the store assigns it.
\<close>

record GuildSettings =
  settings_guild :: string

record Guild =
  guild_id :: string
  guild_settings :: GuildSettings

record GuildUser =
  user_id :: string

record GuildSuggestion =
  suggestion_id :: "int option"
  suggestion_content :: string
  suggestion_status :: string
  suggestion_author :: string

record GuildSupportTicket =
  ticket_id :: "int option"
  ticket_content :: string
  ticket_status :: string

record GuildSelfAssignableRole =
  roleId :: string

record Song =
  song_id :: "int option"
  requestedBy :: string

text \<open>What a service call may resolve with: one entity, or nothing (\<open>undefined\<close>).\<close>

datatype entity =
    EGuild Guild
  | ESettings GuildSettings
  | EUser GuildUser
  | ESuggestion GuildSuggestion
  | ESupportTicket GuildSupportTicket
  | ERole GuildSelfAssignableRole
  | ESong Song

text \<open>The error taxonomy of the service layer.\<close>

datatype error = NotFoundError | ConflictError | ValidationError | StorageError

section \<open>The injected services\<close>

text \<open>
  The controller reaches the store only through the injected \<open>guildService\<close>. A call
  is a method name with its arguments; the service is a function from a call and the
  store to what the awaited promise gives (\<open>Inl\<close> when it rejects, \<open>Inr\<close> the value it
  resolves with) and the store afterwards. The service is a parameter of every endpoint,
  as it is an injected dependency of the class.
\<close>

datatype svc_call =
    SvcFindById string
  | SvcCreate Guild
  | SvcDelete string
  | SvcUpdate string Guild
  | SvcCreateSuggestion string GuildSuggestion
  | SvcUpdateSuggestion string int GuildSuggestion
  | SvcDeleteSuggestion string int
  | SvcCreateSupportTicket string GuildSupportTicket
  | SvcUpdateSupportTicket string int GuildSupportTicket
  | SvcDeleteSupportTicket string int
  | SvcUpdateSettings string GuildSettings
  | SvcCreateUser string GuildUser
  | SvcUpdateUser string string GuildUser
  | SvcDeleteUser string string
  | SvcFindSelfAssignableRole string string
  | SvcCreateSelfAssignableRole string GuildSelfAssignableRole
  | SvcDeleteSelfAssignableRole string string
  | SvcCreateSong string Song
  | SvcClearPlaylist string
  | SvcDeleteSongsByUserId string string
  | SvcDeleteSong string int

type_synonym 'db GuildService = "svc_call \<Rightarrow> 'db \<Rightarrow> (error + entity option) \<times> 'db"

text \<open>The event names the controller passes to \<open>socketService.send\<close>.\<close>

datatype event =
    GUILD_CREATE | GUILD_DELETE | GUILD_UPDATE
  | GUILD_SUGGESTION_CREATE | GUILD_SUGGESTION_UPDATE | GUILD_SUGGESTION_DELETE
  | GUILD_SUPPORT_TICKET_CREATE | GUILD_SUPPORT_TICKET_UPDATE | GUILD_SUPPORT_TICKET_DELETE
  | GUILD_SETTINGS_UPDATE
  | GUILD_USER_CREATE | GUILD_USER_UPDATE | GUILD_USER_DELETE

text \<open>
  The second argument of \<open>send\<close>: the request body, the guild id, or the object literal
  with the guild id and the child id.
\<close>

datatype payload =
    PGuild Guild
  | PGuildId string
  | PSuggestion GuildSuggestion
  | PSuggestionKey string int
  | PSupportTicket GuildSupportTicket
  | PSupportTicketKey string int
  | PSettings GuildSettings
  | PUser GuildUser
  | PUserKey string string

text \<open>
  What an endpoint does, in order: a service call that resolved or rejected, an event
  sent on the socket, a status sent on the response.
\<close>

datatype action =
    Resolved svc_call
  | Rejected svc_call error
  | Send event payload
  | SendStatus nat

section \<open>The guild controller\<close>

text \<open>
  An endpoint is an \<open>async\<close> method: it runs on the store and the actions so far, and
  gives its return value (\<open>Inl\<close> when it throws), the store and the actions afterwards.
  \<open>await\<close> of a rejected promise throws, and nothing in the controller catches.
\<close>

type_synonym ('db, 'a) endpoint = "'db \<times> action list \<Rightarrow> (error + 'a) \<times> 'db \<times> action list"

definition return :: "'a \<Rightarrow> ('db, 'a) endpoint" where
  "return x = (\<lambda>(db, tr). (Inr x, db, tr))"

definition andThen :: "('db, 'a) endpoint \<Rightarrow> ('a \<Rightarrow> ('db, 'b) endpoint) \<Rightarrow> ('db, 'b) endpoint" where
  "andThen m f = (\<lambda>w. case m w of
      (Inl e, db, tr) \<Rightarrow> (Inl e, db, tr)
    | (Inr x, db, tr) \<Rightarrow> f x (db, tr))"

definition await :: "'db GuildService \<Rightarrow> svc_call \<Rightarrow> ('db, entity option) endpoint" where
  "await guildService c = (\<lambda>(db, tr). case guildService c db of
      (Inl e, db') \<Rightarrow> (Inl e, db', tr @ [Rejected c e])
    | (Inr v, db') \<Rightarrow> (Inr v, db', tr @ [Resolved c]))"

definition send :: "event \<Rightarrow> payload \<Rightarrow> ('db, unit) endpoint" where
  "send ev p = (\<lambda>(db, tr). (Inr (), db, tr @ [Send ev p]))"

definition sendStatus :: "nat \<Rightarrow> ('db, unit) endpoint" where
  "sendStatus code = (\<lambda>(db, tr). (Inr (), db, tr @ [SendStatus code]))"

definition run :: "('db, 'a) endpoint \<Rightarrow> 'db \<Rightarrow> (error + 'a) \<times> 'db \<times> action list" where
  "run m db = m (db, [])"

definition ret :: "(error + 'a) \<times> 'db \<times> action list \<Rightarrow> error + 'a" where
  "ret out = fst out"

definition store_of :: "(error + 'a) \<times> 'db \<times> action list \<Rightarrow> 'db" where
  "store_of out = fst (snd out)"

definition actions :: "(error + 'a) \<times> 'db \<times> action list \<Rightarrow> action list" where
  "actions out = snd (snd out)"

fun sends :: "action list \<Rightarrow> (event \<times> payload) list" where
  "sends [] = []"
| "sends (Send ev p # tr) = (ev, p) # sends tr"
| "sends (a # tr) = sends tr"

fun statuses :: "action list \<Rightarrow> nat list" where
  "statuses [] = []"
| "statuses (SendStatus code # tr) = code # statuses tr"
| "statuses (a # tr) = statuses tr"

subsection \<open>Guilds\<close>

definition findById :: "'db GuildService \<Rightarrow> string \<Rightarrow> ('db, entity option) endpoint" where
  "findById guildService i =
     andThen (await guildService (SvcFindById i)) (\<lambda>guild.
     andThen (if guild = None then sendStatus 404 else return ()) (\<lambda>_.
     return guild))"

definition create :: "'db GuildService \<Rightarrow> Guild \<Rightarrow> ('db, unit) endpoint" where
  "create guildService guild =
     andThen (await guildService (SvcCreate guild)) (\<lambda>_.
     send GUILD_CREATE (PGuild guild))"

definition deleteById :: "'db GuildService \<Rightarrow> string \<Rightarrow> ('db, unit) endpoint" where
  "deleteById guildService i =
     andThen (await guildService (SvcDelete i)) (\<lambda>_.
     send GUILD_DELETE (PGuildId i))"

definition updateById :: "'db GuildService \<Rightarrow> string \<Rightarrow> Guild \<Rightarrow> ('db, unit) endpoint" where
  "updateById guildService i guild =
     andThen (await guildService (SvcUpdate i guild)) (\<lambda>_.
     send GUILD_UPDATE (PGuild guild))"

subsection \<open>Suggestions\<close>

definition createSuggestion ::
  "'db GuildService \<Rightarrow> string \<Rightarrow> GuildSuggestion \<Rightarrow> ('db, entity option) endpoint" where
  "createSuggestion guildService i suggestion =
     andThen (await guildService (SvcCreateSuggestion i suggestion)) (\<lambda>ticket.
     andThen (send GUILD_SUGGESTION_CREATE (PSuggestion suggestion)) (\<lambda>_.
     return ticket))"

definition updateSuggestionById ::
  "'db GuildService \<Rightarrow> string \<Rightarrow> int \<Rightarrow> GuildSuggestion \<Rightarrow> ('db, unit) endpoint" where
  "updateSuggestionById guildService i suggestionId suggestion =
     andThen (await guildService (SvcUpdateSuggestion i suggestionId suggestion)) (\<lambda>_.
     send GUILD_SUGGESTION_UPDATE (PSuggestion suggestion))"

definition deleteSuggestionById ::
  "'db GuildService \<Rightarrow> string \<Rightarrow> int \<Rightarrow> ('db, unit) endpoint" where
  "deleteSuggestionById guildService i suggestionId =
     andThen (await guildService (SvcDeleteSuggestion i suggestionId)) (\<lambda>_.
     send GUILD_SUGGESTION_DELETE (PSuggestionKey i suggestionId))"

subsection \<open>Support tickets\<close>

definition createSupportTicket ::
  "'db GuildService \<Rightarrow> string \<Rightarrow> GuildSupportTicket \<Rightarrow> ('db, entity option) endpoint" where
  "createSupportTicket guildService i supportTicket =
     andThen (await guildService (SvcCreateSupportTicket i supportTicket)) (\<lambda>ticket.
     andThen (send GUILD_SUPPORT_TICKET_CREATE (PSupportTicket supportTicket)) (\<lambda>_.
     return ticket))"

definition updateSupportTicketById ::
  "'db GuildService \<Rightarrow> string \<Rightarrow> int \<Rightarrow> GuildSupportTicket \<Rightarrow> ('db, unit) endpoint" where
  "updateSupportTicketById guildService i ticketId supportTicket =
     andThen (await guildService (SvcUpdateSupportTicket i ticketId supportTicket)) (\<lambda>_.
     send GUILD_SUPPORT_TICKET_UPDATE (PSupportTicket supportTicket))"

definition deleteSupportTicketById ::
  "'db GuildService \<Rightarrow> string \<Rightarrow> int \<Rightarrow> ('db, unit) endpoint" where
  "deleteSupportTicketById guildService i ticketId =
     andThen (await guildService (SvcDeleteSupportTicket i ticketId)) (\<lambda>_.
     send GUILD_SUPPORT_TICKET_DELETE (PSupportTicketKey i ticketId))"

subsection \<open>Settings\<close>

definition updateSettingsById ::
  "'db GuildService \<Rightarrow> string \<Rightarrow> GuildSettings \<Rightarrow> ('db, unit) endpoint" where
  "updateSettingsById guildService i settings =
     andThen (await guildService (SvcUpdateSettings i settings)) (\<lambda>_.
     send GUILD_SETTINGS_UPDATE (PSettings settings))"

subsection \<open>Users\<close>

definition createUser :: "'db GuildService \<Rightarrow> string \<Rightarrow> GuildUser \<Rightarrow> ('db, unit) endpoint" where
  "createUser guildService i user =
     andThen (await guildService (SvcCreateUser i user)) (\<lambda>_.
     send GUILD_USER_CREATE (PUser user))"

definition updateUserById ::
  "'db GuildService \<Rightarrow> string \<Rightarrow> string \<Rightarrow> GuildUser \<Rightarrow> ('db, unit) endpoint" where
  "updateUserById guildService i userId user =
     andThen (await guildService (SvcUpdateUser i userId user)) (\<lambda>_.
     send GUILD_USER_UPDATE (PUser user))"

definition deleteUserById :: "'db GuildService \<Rightarrow> string \<Rightarrow> string \<Rightarrow> ('db, unit) endpoint" where
  "deleteUserById guildService i userId =
     andThen (await guildService (SvcDeleteUser i userId)) (\<lambda>_.
     send GUILD_USER_DELETE (PUserKey i userId))"

subsection \<open>Self-assignable roles\<close>

definition findSelfAssignableRole ::
  "'db GuildService \<Rightarrow> string \<Rightarrow> string \<Rightarrow> ('db, entity option) endpoint" where
  "findSelfAssignableRole guildService i r =
     await guildService (SvcFindSelfAssignableRole i r)"

definition createSelfAssignableRole ::
  "'db GuildService \<Rightarrow> string \<Rightarrow> GuildSelfAssignableRole \<Rightarrow> ('db, entity option) endpoint" where
  "createSelfAssignableRole guildService i selfAssignableRole =
     andThen (findSelfAssignableRole guildService i (roleId selfAssignableRole))
       (\<lambda>existingAssignableRole.
     if existingAssignableRole \<noteq> None
     then andThen (sendStatus 409) (\<lambda>_. return None)
     else await guildService (SvcCreateSelfAssignableRole i selfAssignableRole))"

definition deleteSelfAssignableRole ::
  "'db GuildService \<Rightarrow> string \<Rightarrow> string \<Rightarrow> ('db, unit) endpoint" where
  "deleteSelfAssignableRole guildService i r =
     andThen (await guildService (SvcDeleteSelfAssignableRole i r)) (\<lambda>_. return ())"

subsection \<open>Playlist\<close>

definition createSong :: "'db GuildService \<Rightarrow> string \<Rightarrow> Song \<Rightarrow> ('db, entity option) endpoint" where
  "createSong guildService i song = await guildService (SvcCreateSong i song)"

definition clearPlaylist :: "'db GuildService \<Rightarrow> string \<Rightarrow> ('db, entity option) endpoint" where
  "clearPlaylist guildService i = await guildService (SvcClearPlaylist i)"

definition deleteSongsByUserId ::
  "'db GuildService \<Rightarrow> string \<Rightarrow> string \<Rightarrow> ('db, entity option) endpoint" where
  "deleteSongsByUserId guildService i userId =
     await guildService (SvcDeleteSongsByUserId i userId)"

definition deleteSongById :: "'db GuildService \<Rightarrow> string \<Rightarrow> int \<Rightarrow> ('db, entity option) endpoint" where
  "deleteSongById guildService i songId = await guildService (SvcDeleteSong i songId)"

subsection \<open>The mutating routes\<close>

text \<open>
  The routes the decorators register for POST, PUT and DELETE, each with the parameters
  and the body the decorators bind. \<open>handle\<close> calls the method of the route and drops
  its return value.
\<close>

datatype request =
    PostGuild Guild
  | DeleteGuild string
  | PutGuild string Guild
  | PostSuggestion string GuildSuggestion
  | PutSuggestion string int GuildSuggestion
  | DeleteSuggestion string int
  | PostSupportTicket string GuildSupportTicket
  | PutSupportTicket string int GuildSupportTicket
  | DeleteSupportTicket string int
  | PutSettings string GuildSettings
  | PostUser string GuildUser
  | PutUser string string GuildUser
  | DeleteUser string string
  | PostSelfAssignableRole string GuildSelfAssignableRole
  | DeleteSelfAssignableRole string string
  | PostSong string Song
  | DeletePlaylist string
  | DeleteSongsOfUser string string
  | DeleteSong string int

definition discard :: "('db, 'a) endpoint \<Rightarrow> ('db, unit) endpoint" where
  "discard m = andThen m (\<lambda>_. return ())"

fun handle :: "'db GuildService \<Rightarrow> request \<Rightarrow> ('db, unit) endpoint" where
  "handle s (PostGuild guild) = create s guild"
| "handle s (DeleteGuild i) = deleteById s i"
| "handle s (PutGuild i guild) = updateById s i guild"
| "handle s (PostSuggestion i suggestion) = discard (createSuggestion s i suggestion)"
| "handle s (PutSuggestion i k suggestion) = updateSuggestionById s i k suggestion"
| "handle s (DeleteSuggestion i k) = deleteSuggestionById s i k"
| "handle s (PostSupportTicket i t) = discard (createSupportTicket s i t)"
| "handle s (PutSupportTicket i k t) = updateSupportTicketById s i k t"
| "handle s (DeleteSupportTicket i k) = deleteSupportTicketById s i k"
| "handle s (PutSettings i settings) = updateSettingsById s i settings"
| "handle s (PostUser i user) = createUser s i user"
| "handle s (PutUser i u user) = updateUserById s i u user"
| "handle s (DeleteUser i u) = deleteUserById s i u"
| "handle s (PostSelfAssignableRole i r) = discard (createSelfAssignableRole s i r)"
| "handle s (DeleteSelfAssignableRole i r) = deleteSelfAssignableRole s i r"
| "handle s (PostSong i song) = discard (createSong s i song)"
| "handle s (DeletePlaylist i) = discard (clearPlaylist s i)"
| "handle s (DeleteSongsOfUser i u) = discard (deleteSongsByUserId s i u)"
| "handle s (DeleteSong i k) = discard (deleteSongById s i k)"

section \<open>The guild service and its store\<close>

text \<open>
  Modelled from the spec: the GuildService class (\<open>services/guild\<close>) and the relational
  store behind it are not among the sources. The store holds the guild rows and, as
  pairs of the owning guild's id and the child, the self-assignable roles and the
  playlist; \<open>song_seq\<close> is the sequence the automatic song ids come from. The methods
  follow the service contract: \<open>findById\<close> gives the guild or nothing and never fails,
  \<open>create\<close> fails with a conflict when the id exists, \<open>update\<close> and \<open>delete\<close> fail with
  not-found when it is absent, \<open>delete\<close> removes the children with the guild, the
  lookup of a role is by guild and role id, and the creation of a role inserts.
\<close>

record store =
  guild_rows :: "Guild list"
  role_rows :: "(string \<times> GuildSelfAssignableRole) list"
  song_rows :: "(string \<times> Song) list"
  song_seq :: int

definition spec_findById :: "string \<Rightarrow> store \<Rightarrow> Guild option" where
  "spec_findById i s = find (\<lambda>g. guild_id g = i) (guild_rows s)"

definition spec_create :: "Guild \<Rightarrow> store \<Rightarrow> (error + entity option) \<times> store" where
  "spec_create guild s =
     (if spec_findById (guild_id guild) s \<noteq> None then (Inl ConflictError, s)
      else (Inr None, s\<lparr>guild_rows := guild_rows s @ [guild]\<rparr>))"

definition spec_update :: "string \<Rightarrow> Guild \<Rightarrow> store \<Rightarrow> (error + entity option) \<times> store" where
  "spec_update i guild s =
     (if spec_findById i s = None then (Inl NotFoundError, s)
      else (Inr None,
        s\<lparr>guild_rows :=
            map (\<lambda>g. if guild_id g = i then guild\<lparr>guild_id := i\<rparr> else g) (guild_rows s)\<rparr>))"

definition spec_delete :: "string \<Rightarrow> store \<Rightarrow> (error + entity option) \<times> store" where
  "spec_delete i s =
     (if spec_findById i s = None then (Inl NotFoundError, s)
      else (Inr None,
        s\<lparr>guild_rows := filter (\<lambda>g. guild_id g \<noteq> i) (guild_rows s),
          role_rows := filter (\<lambda>row. fst row \<noteq> i) (role_rows s),
          song_rows := filter (\<lambda>row. fst row \<noteq> i) (song_rows s)\<rparr>))"

definition spec_findSelfAssignableRoles :: "string \<Rightarrow> store \<Rightarrow> GuildSelfAssignableRole list" where
  "spec_findSelfAssignableRoles i s = map snd (filter (\<lambda>row. fst row = i) (role_rows s))"

definition spec_findSelfAssignableRole ::
  "string \<Rightarrow> string \<Rightarrow> store \<Rightarrow> GuildSelfAssignableRole option" where
  "spec_findSelfAssignableRole i r s =
     find (\<lambda>role. roleId role = r) (spec_findSelfAssignableRoles i s)"

definition spec_createSelfAssignableRole ::
  "string \<Rightarrow> GuildSelfAssignableRole \<Rightarrow> store \<Rightarrow> (error + entity option) \<times> store" where
  "spec_createSelfAssignableRole i role s =
     (Inr None, s\<lparr>role_rows := role_rows s @ [(i, role)]\<rparr>)"

definition spec_deleteSelfAssignableRole ::
  "string \<Rightarrow> string \<Rightarrow> store \<Rightarrow> (error + entity option) \<times> store" where
  "spec_deleteSelfAssignableRole i r s =
     (if spec_findSelfAssignableRole i r s = None then (Inl NotFoundError, s)
      else (Inr None,
        s\<lparr>role_rows := filter (\<lambda>row. \<not> (fst row = i \<and> roleId (snd row) = r)) (role_rows s)\<rparr>))"

definition spec_createSong :: "string \<Rightarrow> Song \<Rightarrow> store \<Rightarrow> (error + entity option) \<times> store" where
  "spec_createSong i song s =
     (Inr (Some (ESong (song\<lparr>song_id := Some (song_seq s)\<rparr>))),
      s\<lparr>song_rows := song_rows s @ [(i, song\<lparr>song_id := Some (song_seq s)\<rparr>)],
        song_seq := song_seq s + 1\<rparr>)"

definition spec_clearPlaylist :: "string \<Rightarrow> store \<Rightarrow> (error + entity option) \<times> store" where
  "spec_clearPlaylist i s =
     (Inr None, s\<lparr>song_rows := filter (\<lambda>row. fst row \<noteq> i) (song_rows s)\<rparr>)"

definition spec_deleteSong :: "string \<Rightarrow> int \<Rightarrow> store \<Rightarrow> (error + entity option) \<times> store" where
  "spec_deleteSong i k s =
     (if find (\<lambda>row. fst row = i \<and> song_id (snd row) = Some k) (song_rows s) = None
      then (Inl NotFoundError, s)
      else (Inr None,
        s\<lparr>song_rows :=
            filter (\<lambda>row. \<not> (fst row = i \<and> song_id (snd row) = Some k)) (song_rows s)\<rparr>))"

text \<open>
  Modelled from the spec: the deletion of a user's songs is one logical operation. The
  qualifying rows are removed one after the other; the persistence engine may fail at a
  row (\<open>fails\<close>, the engine's failure, is a parameter), and then the transaction leaves
  the store as it was.
\<close>

fun remove_rows :: "('a \<Rightarrow> bool) \<Rightarrow> 'a list \<Rightarrow> 'a list \<Rightarrow> error + 'a list" where
  "remove_rows fails [] rows = Inr rows"
| "remove_rows fails (x # xs) rows =
     (if fails x then Inl StorageError else remove_rows fails xs (remove1 x rows))"

definition requested_in :: "string \<Rightarrow> string \<Rightarrow> string \<times> Song \<Rightarrow> bool" where
  "requested_in i userId row = (fst row = i \<and> requestedBy (snd row) = userId)"

definition spec_deleteSongsByUserId ::
  "(string \<times> Song \<Rightarrow> bool) \<Rightarrow> string \<Rightarrow> string \<Rightarrow> store \<Rightarrow> (error + entity option) \<times> store" where
  "spec_deleteSongsByUserId fails i userId s =
     (case remove_rows fails (filter (requested_in i userId) (song_rows s)) (song_rows s) of
        Inl e \<Rightarrow> (Inl e, s)
      | Inr rows \<Rightarrow> (Inr None, s\<lparr>song_rows := rows\<rparr>))"

text \<open>
  Modelled from the spec: the GuildService class as the controller sees it, one method
  per call. The methods on suggestions, support tickets, settings and users, of which
  the spec gives only the shape, are left to the parameter \<open>other\<close>.
\<close>

fun GuildService_spec ::
  "(string \<times> Song \<Rightarrow> bool) \<Rightarrow> store GuildService \<Rightarrow> store GuildService" where
  "GuildService_spec fails other (SvcFindById i) s = (Inr (map_option EGuild (spec_findById i s)), s)"
| "GuildService_spec fails other (SvcCreate guild) s = spec_create guild s"
| "GuildService_spec fails other (SvcDelete i) s = spec_delete i s"
| "GuildService_spec fails other (SvcUpdate i guild) s = spec_update i guild s"
| "GuildService_spec fails other (SvcFindSelfAssignableRole i r) s =
     (Inr (map_option ERole (spec_findSelfAssignableRole i r s)), s)"
| "GuildService_spec fails other (SvcCreateSelfAssignableRole i role) s =
     spec_createSelfAssignableRole i role s"
| "GuildService_spec fails other (SvcDeleteSelfAssignableRole i r) s =
     spec_deleteSelfAssignableRole i r s"
| "GuildService_spec fails other (SvcCreateSong i song) s = spec_createSong i song s"
| "GuildService_spec fails other (SvcClearPlaylist i) s = spec_clearPlaylist i s"
| "GuildService_spec fails other (SvcDeleteSongsByUserId i userId) s =
     spec_deleteSongsByUserId fails i userId s"
| "GuildService_spec fails other (SvcDeleteSong i k) s = spec_deleteSong i k s"
| "GuildService_spec fails other c s = other c s"

text \<open>
  A value for \<open>other\<close> in the examples: every call on the methods left open rejects.
\<close>

definition unavailable :: "store GuildService" where
  "unavailable c s = (Inl StorageError, s)"

section \<open>Moderation records and referrals\<close>

text \<open>
  The entity classes GuildUserWarning, GuildUserKick and Referral. A field is \<open>None\<close>
  while the object has no such property: a new instance has none, since the class
  declares its fields without initialisers. The field names carry the class as a prefix
  (the classes share the names \<open>id\<close>, \<open>issuer\<close>, \<open>reason\<close>, \<open>timestamp\<close> and
  \<open>user\<close>). A date is its time value in milliseconds. The types GuildUser, User,
  ReferralRole and ReferralUnlockedReward are imported by the sources and declared
  elsewhere; they are type parameters.
\<close>

record 'u GuildUserWarning =
  warning_id :: "int option"
  warning_issuer :: "'u option"
  warning_reason :: "string option"
  warning_timestamp :: "int option"
  warning_user :: "'u option"

record 'u GuildUserKick =
  kick_id :: "int option"
  kick_issuer :: "'u option"
  kick_reason :: "string option"
  kick_timestamp :: "int option"
  kick_user :: "'u option"

record ('role, 'reward, 'user) Referral =
  dateCreated :: "int option"
  referral_guild :: "Guild option"
  referral_id :: "int option"
  inviteUrl :: "string option"
  joinCount :: "int option"
  referral_role :: "'role option"
  unlockedRewards :: "'reward list option"
  referral_user :: "'user option"

text \<open>
  \<open>Object.assign(this, source)\<close> copies every own property of the source onto the
  target, property by property.
\<close>

definition assign_field :: "'a option \<Rightarrow> 'a option \<Rightarrow> 'a option" where
  "assign_field target source = (case source of None \<Rightarrow> target | Some v \<Rightarrow> Some v)"

definition GuildUserWarning_assign ::
  "'u GuildUserWarning \<Rightarrow> 'u GuildUserWarning \<Rightarrow> 'u GuildUserWarning" where
  "GuildUserWarning_assign this source =
     \<lparr>warning_id = assign_field (warning_id this) (warning_id source),
      warning_issuer = assign_field (warning_issuer this) (warning_issuer source),
      warning_reason = assign_field (warning_reason this) (warning_reason source),
      warning_timestamp = assign_field (warning_timestamp this) (warning_timestamp source),
      warning_user = assign_field (warning_user this) (warning_user source)\<rparr>"

definition GuildUserWarning_fresh :: "'u GuildUserWarning" where
  "GuildUserWarning_fresh =
     \<lparr>warning_id = None, warning_issuer = None, warning_reason = None,
      warning_timestamp = None, warning_user = None\<rparr>"

definition GuildUserWarning_new :: "'u GuildUserWarning option \<Rightarrow> 'u GuildUserWarning" where
  "GuildUserWarning_new guildUserWarning =
     (case guildUserWarning of
        None \<Rightarrow> GuildUserWarning_fresh
      | Some source \<Rightarrow> GuildUserWarning_assign GuildUserWarning_fresh source)"

definition GuildUserKick_assign ::
  "'u GuildUserKick \<Rightarrow> 'u GuildUserKick \<Rightarrow> 'u GuildUserKick" where
  "GuildUserKick_assign this source =
     \<lparr>kick_id = assign_field (kick_id this) (kick_id source),
      kick_issuer = assign_field (kick_issuer this) (kick_issuer source),
      kick_reason = assign_field (kick_reason this) (kick_reason source),
      kick_timestamp = assign_field (kick_timestamp this) (kick_timestamp source),
      kick_user = assign_field (kick_user this) (kick_user source)\<rparr>"

definition GuildUserKick_fresh :: "'u GuildUserKick" where
  "GuildUserKick_fresh =
     \<lparr>kick_id = None, kick_issuer = None, kick_reason = None,
      kick_timestamp = None, kick_user = None\<rparr>"

definition GuildUserKick_new :: "'u GuildUserKick option \<Rightarrow> 'u GuildUserKick" where
  "GuildUserKick_new guildUserKick =
     (case guildUserKick of
        None \<Rightarrow> GuildUserKick_fresh
      | Some source \<Rightarrow> GuildUserKick_assign GuildUserKick_fresh source)"

definition Referral_assign ::
  "('r, 'w, 'u) Referral \<Rightarrow> ('r, 'w, 'u) Referral \<Rightarrow> ('r, 'w, 'u) Referral" where
  "Referral_assign this source =
     \<lparr>dateCreated = assign_field (dateCreated this) (dateCreated source),
      referral_guild = assign_field (referral_guild this) (referral_guild source),
      referral_id = assign_field (referral_id this) (referral_id source),
      inviteUrl = assign_field (inviteUrl this) (inviteUrl source),
      joinCount = assign_field (joinCount this) (joinCount source),
      referral_role = assign_field (referral_role this) (referral_role source),
      unlockedRewards = assign_field (unlockedRewards this) (unlockedRewards source),
      referral_user = assign_field (referral_user this) (referral_user source)\<rparr>"

definition Referral_fresh :: "('r, 'w, 'u) Referral" where
  "Referral_fresh =
     \<lparr>dateCreated = None, referral_guild = None, referral_id = None, inviteUrl = None,
      joinCount = None, referral_role = None, unlockedRewards = None,
      referral_user = None\<rparr>"

text \<open>
  The Referral constructor reads the clock (\<open>new Date()\<close>); \<open>now\<close> is what it reads.
  The assignment to \<open>dateCreated\<close> stands after the conditional, outside of it.
\<close>

definition Referral_new :: "int \<Rightarrow> ('r, 'w, 'u) Referral option \<Rightarrow> ('r, 'w, 'u) Referral" where
  "Referral_new now referral =
     (case referral of
        None \<Rightarrow> Referral_fresh
      | Some source \<Rightarrow> Referral_assign Referral_fresh source)\<lparr>dateCreated := Some now\<rparr>"

subsection \<open>The unique index of the moderation records\<close>

text \<open>
  Both classes carry \<open>@Index({ unique: true })\<close> on one property, \<open>user\<close>, and no index
  on the class. The index of a table is the list of the columns it covers, and a cell is
  the value of a row in a column (\<open>None\<close> for null).
\<close>

datatype column = ColId | ColIssuer | ColReason | ColTimestamp | ColUser

datatype 'u cell = Num int | Text string | Ref 'u

definition GuildUserWarning_unique_index :: "column list" where
  "GuildUserWarning_unique_index = [ColUser]"

definition GuildUserKick_unique_index :: "column list" where
  "GuildUserKick_unique_index = [ColUser]"

fun GuildUserWarning_cell :: "'u GuildUserWarning \<Rightarrow> column \<Rightarrow> 'u cell option" where
  "GuildUserWarning_cell w ColId = map_option Num (warning_id w)"
| "GuildUserWarning_cell w ColIssuer = map_option Ref (warning_issuer w)"
| "GuildUserWarning_cell w ColReason = map_option Text (warning_reason w)"
| "GuildUserWarning_cell w ColTimestamp = map_option Num (warning_timestamp w)"
| "GuildUserWarning_cell w ColUser = map_option Ref (warning_user w)"

fun GuildUserKick_cell :: "'u GuildUserKick \<Rightarrow> column \<Rightarrow> 'u cell option" where
  "GuildUserKick_cell k ColId = map_option Num (kick_id k)"
| "GuildUserKick_cell k ColIssuer = map_option Ref (kick_issuer k)"
| "GuildUserKick_cell k ColReason = map_option Text (kick_reason k)"
| "GuildUserKick_cell k ColTimestamp = map_option Num (kick_timestamp k)"
| "GuildUserKick_cell k ColUser = map_option Ref (kick_user k)"

text \<open>
  Modelled from the spec: the persistence engine is an external collaborator, assumed to
  enforce unique constraints. It refuses a row when a stored row has the same values in
  all columns of the unique index and none of them is null, and appends it otherwise.
\<close>

definition index_clash :: "column list \<Rightarrow> ('r \<Rightarrow> column \<Rightarrow> 'u cell option) \<Rightarrow> 'r \<Rightarrow> 'r \<Rightarrow> bool" where
  "index_clash index cell_of new old =
     (map (cell_of new) index = map (cell_of old) index \<and> None \<notin> set (map (cell_of new) index))"

definition insert_unique ::
  "column list \<Rightarrow> ('r \<Rightarrow> column \<Rightarrow> 'u cell option) \<Rightarrow> 'r \<Rightarrow> 'r list \<Rightarrow> error + 'r list" where
  "insert_unique index cell_of new rows =
     (if list_ex (index_clash index cell_of new) rows then Inl ConflictError
      else Inr (rows @ [new]))"

definition GuildUserWarning_insert ::
  "'u GuildUserWarning \<Rightarrow> 'u GuildUserWarning list \<Rightarrow> error + 'u GuildUserWarning list" where
  "GuildUserWarning_insert = insert_unique GuildUserWarning_unique_index GuildUserWarning_cell"

definition GuildUserKick_insert ::
  "'u GuildUserKick \<Rightarrow> 'u GuildUserKick list \<Rightarrow> error + 'u GuildUserKick list" where
  "GuildUserKick_insert = insert_unique GuildUserKick_unique_index GuildUserKick_cell"

text \<open>The target users of the stored records, in order; a record with no target has none.\<close>

definition warned :: "'u GuildUserWarning list \<Rightarrow> 'u list" where
  "warned rows = concat (map (\<lambda>w. case warning_user w of None \<Rightarrow> [] | Some u \<Rightarrow> [u]) rows)"

definition kicked :: "'u GuildUserKick list \<Rightarrow> 'u list" where
  "kicked rows = concat (map (\<lambda>k. case kick_user k of None \<Rightarrow> [] | Some u \<Rightarrow> [u]) rows)"

section \<open>The user controller of the bot\<close>

text \<open>
  The configuration file is read once, when the module loads; its type Config is
  declared elsewhere, and the records hold the fields the sources read. The client is
  the chat library's: \<open>guilds\<close>, \<open>members\<close> and \<open>roles\<close> are its caches, read with
  \<open>get\<close> and \<open>has\<close>, and \<open>isOwner\<close> is its test for the owner of the bot.
\<close>

record premium_config =
  premiumPatreonRoleId :: "string option"
  primaryGuildId :: "string option"

record optional_config =
  premium :: "premium_config option"

record bot_config =
  bot_clientSecret :: string
  bot_clientId :: string

record Config =
  bot :: "bot_config option"
  optional :: optional_config

record GuildMember =
  roles :: "string set"

record DiscordGuild =
  members :: "string \<Rightarrow> GuildMember option"

record CommandoClient =
  guilds :: "string \<Rightarrow> DiscordGuild option"
  isOwner :: "string \<Rightarrow> bool"

text \<open>\<open>!x\<close> on a string that may be undefined: the empty string is falsy as well.\<close>

definition falsy :: "string option \<Rightarrow> bool" where
  "falsy x = (case x of None \<Rightarrow> True | Some v \<Rightarrow> v = [])"

definition userHasPremium :: "Config \<Rightarrow> string \<Rightarrow> CommandoClient \<Rightarrow> bool" where
  "userHasPremium config i client =
     (case premium (optional config) of
        None \<Rightarrow> False
      | Some p \<Rightarrow>
          if falsy (premiumPatreonRoleId p) \<or> falsy (primaryGuildId p) then False
          else (case guilds client (the (primaryGuildId p)) of
                  None \<Rightarrow> False
                | Some guild \<Rightarrow>
                    (case members guild i of
                       None \<Rightarrow> False
                     | Some member \<Rightarrow>
                         if isOwner client i then True
                         else the (premiumPatreonRoleId p) \<in> roles member)))"

section \<open>The authentication service\<close>

text \<open>
  The module declares \<open>clientSecret\<close> and \<open>clientId\<close> with \<open>const\<close> and the empty
  string, then runs a \<open>try\<close> block that requires the configuration file, destructures
  \<open>config.bot\<close> and assigns to both names; the \<open>catch\<close> logs the error. A binding is its
  value and whether it was declared \<open>const\<close>: an assignment to a constant throws a
  TypeError and leaves the value. \<open>None\<close> for the file is a \<open>require\<close> that throws.
\<close>

datatype js_error = CannotFindModule | TypeError

record binding =
  binding_value :: string
  binding_const :: bool

definition declare_const :: "string \<Rightarrow> binding" where
  "declare_const v = \<lparr>binding_value = v, binding_const = True\<rparr>"

definition assign :: "binding \<Rightarrow> string \<Rightarrow> js_error + binding" where
  "assign b v = (if binding_const b then Inl TypeError else Inr (b\<lparr>binding_value := v\<rparr>))"

record authentication_module =
  clientSecret :: binding
  clientId :: binding
  console_error :: "js_error list"

definition try_block ::
  "Config option \<Rightarrow> authentication_module \<Rightarrow> js_error option \<times> authentication_module" where
  "try_block file m =
     (case file of
        None \<Rightarrow> (Some CannotFindModule, m)
      | Some config \<Rightarrow>
          (case bot config of
             None \<Rightarrow> (Some TypeError, m)
           | Some b \<Rightarrow>
               (case assign (clientSecret m) (bot_clientSecret b) of
                  Inl e \<Rightarrow> (Some e, m)
                | Inr secret \<Rightarrow>
                    (case assign (clientId m) (bot_clientId b) of
                       Inl e \<Rightarrow> (Some e, m\<lparr>clientSecret := secret\<rparr>)
                     | Inr ident \<Rightarrow> (None, m\<lparr>clientSecret := secret, clientId := ident\<rparr>)))))"

definition load_module :: "Config option \<Rightarrow> authentication_module" where
  "load_module file =
     (case try_block file
        \<lparr>clientSecret = declare_const [], clientId = declare_const [], console_error = []\<rparr> of
        (Some err, m) \<Rightarrow> m\<lparr>console_error := console_error m @ [err]\<rparr>
      | (None, m) \<Rightarrow> m)"

text \<open>
  The request \<open>getDiscordAccessToken\<close> posts. The base64 encoding of the buffer and the
  HTTP client are library functions and stay parameters; the method returns the data of
  the response.
\<close>

record http_request =
  url :: string
  headers :: "(string \<times> string) list"

definition getDiscordAccessToken ::
  "(string \<Rightarrow> string) \<Rightarrow> (http_request \<Rightarrow> 'data) \<Rightarrow> authentication_module \<Rightarrow>
     string \<Rightarrow> string \<Rightarrow> 'data" where
  "getDiscordAccessToken encode post m code redirect =
     (let creds = encode (binding_value (clientId m) @ '':'' @ binding_value (clientSecret m))
      in post
        \<lparr>url = ''https://discordapp.com/api/oauth2/token?grant_type=authorization_code&code=''
             @ code @ ''&redirect_uri='' @ redirect,
         headers = [(''Authorization'', ''Basic '' @ creds)]\<rparr>)"

section \<open>Properties of the guild controller\<close>

lemmas endpoint_defs = return_def andThen_def await_def send_def sendStatus_def run_def
  ret_def store_of_def actions_def discard_def

lemmas route_defs = create_def deleteById_def updateById_def createSuggestion_def
  updateSuggestionById_def deleteSuggestionById_def createSupportTicket_def
  updateSupportTicketById_def deleteSupportTicketById_def updateSettingsById_def
  createUser_def updateUserById_def deleteUserById_def findSelfAssignableRole_def
  createSelfAssignableRole_def deleteSelfAssignableRole_def createSong_def
  clearPlaylist_def deleteSongsByUserId_def deleteSongById_def

lemmas spec_defs = spec_findById_def spec_create_def spec_update_def spec_delete_def
  spec_findSelfAssignableRoles_def spec_findSelfAssignableRole_def
  spec_createSelfAssignableRole_def spec_deleteSelfAssignableRole_def spec_createSong_def
  spec_clearPlaylist_def spec_deleteSong_def spec_deleteSongsByUserId_def requested_in_def
  unavailable_def

subsection \<open>Creation of a self-assignable role\<close>

lemma find_None_filter: "find P xs = None \<longleftrightarrow> filter P xs = []"
  by (induction xs) auto

lemma find_Some_filter: "find P xs = Some x \<Longrightarrow> filter P xs \<noteq> []"
  using find_None_filter[of P xs] by auto

lemma find_append_new: "find P xs = None \<Longrightarrow> P y \<Longrightarrow> find P (xs @ [y]) = Some y"
  by (induction xs) (auto split: if_splits)

lemma createSelfAssignableRole_found:
  "guildService (SvcFindSelfAssignableRole g (roleId r)) db = (Inr (Some x), db') \<Longrightarrow>
     run (createSelfAssignableRole guildService g r) db
       = (Inr None, db', [Resolved (SvcFindSelfAssignableRole g (roleId r)), SendStatus 409])"
  by (simp add: createSelfAssignableRole_def findSelfAssignableRole_def endpoint_defs)

lemma createSelfAssignableRole_absent:
  "guildService (SvcFindSelfAssignableRole g (roleId r)) db = (Inr None, db') \<Longrightarrow>
     run (createSelfAssignableRole guildService g r) db
       = (case guildService (SvcCreateSelfAssignableRole g r) db' of
            (Inl e, db'') \<Rightarrow> (Inl e, db'', [Resolved (SvcFindSelfAssignableRole g (roleId r)),
                                 Rejected (SvcCreateSelfAssignableRole g r) e])
          | (Inr v, db'') \<Rightarrow> (Inr v, db'', [Resolved (SvcFindSelfAssignableRole g (roleId r)),
                                 Resolved (SvcCreateSelfAssignableRole g r)]))"
  by (simp add: createSelfAssignableRole_def findSelfAssignableRole_def endpoint_defs
      split: prod.splits sum.splits)

lemma spec_roles_append:
  "spec_findSelfAssignableRoles g (s\<lparr>role_rows := role_rows s @ [(g, r)]\<rparr>)
     = spec_findSelfAssignableRoles g s @ [r]"
  by (simp add: spec_findSelfAssignableRoles_def)

lemma createSelfAssignableRole_spec_store:
  "store_of (run (createSelfAssignableRole (GuildService_spec fails other) g r) s)
     = (if spec_findSelfAssignableRole g (roleId r) s = None
        then s\<lparr>role_rows := role_rows s @ [(g, r)]\<rparr> else s)"
  by (cases "spec_findSelfAssignableRole g (roleId r) s")
     (simp_all add: createSelfAssignableRole_def findSelfAssignableRole_def endpoint_defs
        spec_createSelfAssignableRole_def)

lemma createSelfAssignableRole_spec_found_after:
  "spec_findSelfAssignableRole g (roleId r)
     (store_of (run (createSelfAssignableRole (GuildService_spec fails other) g r) s)) \<noteq> None"
  by (auto simp: createSelfAssignableRole_spec_store spec_findSelfAssignableRole_def
      spec_roles_append find_append_new)

lemma createSelfAssignableRole_spec_one:
  assumes "length (filter (\<lambda>role. roleId role = roleId r) (spec_findSelfAssignableRoles g s)) \<le> 1"
  shows "length (filter (\<lambda>role. roleId role = roleId r)
          (spec_findSelfAssignableRoles g
             (store_of (run (createSelfAssignableRole (GuildService_spec fails other) g r) s)))) = 1"
proof (cases "spec_findSelfAssignableRole g (roleId r) s")
  case None
  then have "filter (\<lambda>role. roleId role = roleId r) (spec_findSelfAssignableRoles g s) = []"
    by (simp add: spec_findSelfAssignableRole_def find_None_filter)
  with None show ?thesis
    by (simp add: createSelfAssignableRole_spec_store spec_roles_append)
next
  case (Some x)
  then have "filter (\<lambda>role. roleId role = roleId r) (spec_findSelfAssignableRoles g s) \<noteq> []"
    unfolding spec_findSelfAssignableRole_def by (rule find_Some_filter)
  with assms have
    "length (filter (\<lambda>role. roleId role = roleId r) (spec_findSelfAssignableRoles g s)) = 1"
    by (cases "filter (\<lambda>role. roleId role = roleId r) (spec_findSelfAssignableRoles g s)") auto
  with Some show ?thesis by (simp add: createSelfAssignableRole_spec_store)
qed

text \<open>
  Claim C1. The endpoint first awaits the lookup of a role with the same \<open>roleId\<close> under
  the guild. When the lookup finds one, the endpoint sends status 409 and returns: the
  service's creation is not called, and the store is as the lookup left it. When it
  finds none, the endpoint returns what the service's creation gives. On the store of
  the service contract, calling the endpoint again with the same guild and role reports
  the conflict and changes nothing, and a store that held at most one such row holds
  exactly one after the first call (and so after both).
\<close>

theorem createSelfAssignableRole_conflict_or_insert:
  "(guildService (SvcFindSelfAssignableRole g (roleId r)) db = (Inr (Some x), db') \<longrightarrow>
      run (createSelfAssignableRole guildService g r) db
        = (Inr None, db', [Resolved (SvcFindSelfAssignableRole g (roleId r)), SendStatus 409]))
   \<and> (guildService (SvcFindSelfAssignableRole g (roleId r)) db = (Inr None, db') \<longrightarrow>
      run (createSelfAssignableRole guildService g r) db
        = (case guildService (SvcCreateSelfAssignableRole g r) db' of
             (Inl e, db'') \<Rightarrow> (Inl e, db'', [Resolved (SvcFindSelfAssignableRole g (roleId r)),
                                  Rejected (SvcCreateSelfAssignableRole g r) e])
           | (Inr v, db'') \<Rightarrow> (Inr v, db'', [Resolved (SvcFindSelfAssignableRole g (roleId r)),
                                  Resolved (SvcCreateSelfAssignableRole g r)])))
   \<and> run (createSelfAssignableRole (GuildService_spec fails other) g r)
        (store_of (run (createSelfAssignableRole (GuildService_spec fails other) g r) s))
        = (Inr None,
           store_of (run (createSelfAssignableRole (GuildService_spec fails other) g r) s),
           [Resolved (SvcFindSelfAssignableRole g (roleId r)), SendStatus 409])
   \<and> (length (filter (\<lambda>role. roleId role = roleId r) (spec_findSelfAssignableRoles g s)) \<le> 1 \<longrightarrow>
        length (filter (\<lambda>role. roleId role = roleId r)
          (spec_findSelfAssignableRoles g
             (store_of (run (createSelfAssignableRole (GuildService_spec fails other) g r) s)))) = 1)"
proof (intro conjI impI)
  let ?s1 = "store_of (run (createSelfAssignableRole (GuildService_spec fails other) g r) s)"
  from createSelfAssignableRole_spec_found_after[of g r fails other s]
  obtain y where "spec_findSelfAssignableRole g (roleId r) ?s1 = Some y" by auto
  then have "GuildService_spec fails other (SvcFindSelfAssignableRole g (roleId r)) ?s1
      = (Inr (Some (ERole y)), ?s1)" by simp
  then show "run (createSelfAssignableRole (GuildService_spec fails other) g r) ?s1
        = (Inr None, ?s1, [Resolved (SvcFindSelfAssignableRole g (roleId r)), SendStatus 409])"
    by (rule createSelfAssignableRole_found)
qed (simp_all add: createSelfAssignableRole_found createSelfAssignableRole_absent
      createSelfAssignableRole_spec_one)

text \<open>
  The scenario of the spec: role \<open>r1\<close> is created under guild \<open>g1\<close> in a store with no
  role, then the same call is repeated.
\<close>

theorem createSelfAssignableRole_twice_witness:
  "GuildService_spec (\<lambda>row. False) unavailable (SvcFindSelfAssignableRole ''g1'' ''r1'')
       \<lparr>guild_rows = [], role_rows = [], song_rows = [], song_seq = 1\<rparr>
     = (Inr None, \<lparr>guild_rows = [], role_rows = [], song_rows = [], song_seq = 1\<rparr>)
   \<and> run (createSelfAssignableRole (GuildService_spec (\<lambda>row. False) unavailable) ''g1''
          \<lparr>roleId = ''r1''\<rparr>)
       \<lparr>guild_rows = [], role_rows = [], song_rows = [], song_seq = 1\<rparr>
     = (Inr None,
        \<lparr>guild_rows = [], role_rows = [(''g1'', \<lparr>roleId = ''r1''\<rparr>)], song_rows = [], song_seq = 1\<rparr>,
        [Resolved (SvcFindSelfAssignableRole ''g1'' ''r1''),
         Resolved (SvcCreateSelfAssignableRole ''g1'' \<lparr>roleId = ''r1''\<rparr>)])
   \<and> GuildService_spec (\<lambda>row. False) unavailable (SvcFindSelfAssignableRole ''g1'' ''r1'')
       \<lparr>guild_rows = [], role_rows = [(''g1'', \<lparr>roleId = ''r1''\<rparr>)], song_rows = [], song_seq = 1\<rparr>
     = (Inr (Some (ERole \<lparr>roleId = ''r1''\<rparr>)),
        \<lparr>guild_rows = [], role_rows = [(''g1'', \<lparr>roleId = ''r1''\<rparr>)], song_rows = [], song_seq = 1\<rparr>)
   \<and> run (createSelfAssignableRole (GuildService_spec (\<lambda>row. False) unavailable) ''g1''
          \<lparr>roleId = ''r1''\<rparr>)
       \<lparr>guild_rows = [], role_rows = [(''g1'', \<lparr>roleId = ''r1''\<rparr>)], song_rows = [], song_seq = 1\<rparr>
     = (Inr None,
        \<lparr>guild_rows = [], role_rows = [(''g1'', \<lparr>roleId = ''r1''\<rparr>)], song_rows = [], song_seq = 1\<rparr>,
        [Resolved (SvcFindSelfAssignableRole ''g1'' ''r1''), SendStatus 409])
   \<and> length (filter (\<lambda>role. roleId role = ''r1'')
        (spec_findSelfAssignableRoles ''g1''
          \<lparr>guild_rows = [], role_rows = [], song_rows = [], song_seq = 1\<rparr>)) \<le> 1
   \<and> length (filter (\<lambda>role. roleId role = ''r1'')
        (spec_findSelfAssignableRoles ''g1''
          (store_of (run (createSelfAssignableRole (GuildService_spec (\<lambda>row. False) unavailable)
             ''g1'' \<lparr>roleId = ''r1''\<rparr>)
             \<lparr>guild_rows = [], role_rows = [], song_rows = [], song_seq = 1\<rparr>)))) = 1"
proof -
  let ?svc = "GuildService_spec (\<lambda>row. False) unavailable"
  let ?r = "\<lparr>roleId = ''r1''\<rparr>"
  let ?s0 = "\<lparr>guild_rows = [], role_rows = [], song_rows = [], song_seq = 1\<rparr>"
  let ?s1 = "\<lparr>guild_rows = [], role_rows = [(''g1'', ?r)], song_rows = [], song_seq = 1\<rparr>"
  note fresh = createSelfAssignableRole_conflict_or_insert
    [where guildService = ?svc and g = "''g1''" and r = ?r and db = ?s0 and db' = ?s0
       and fails = "\<lambda>row. False" and other = unavailable and s = ?s0]
  note again = createSelfAssignableRole_conflict_or_insert
    [where guildService = ?svc and g = "''g1''" and r = ?r and db = ?s1 and db' = ?s1
       and x = "ERole ?r"]
  have absent: "?svc (SvcFindSelfAssignableRole ''g1'' ''r1'') ?s0 = (Inr None, ?s0)"
    by (simp add: spec_defs)
  have found: "?svc (SvcFindSelfAssignableRole ''g1'' ''r1'') ?s1 = (Inr (Some (ERole ?r)), ?s1)"
    by (simp add: spec_defs)
  have atmost: "length (filter (\<lambda>role. roleId role = ''r1'')
      (spec_findSelfAssignableRoles ''g1'' ?s0)) \<le> 1"
    by (simp add: spec_defs)
  from fresh absent have first:
    "run (createSelfAssignableRole ?svc ''g1'' ?r) ?s0
       = (Inr None, ?s1, [Resolved (SvcFindSelfAssignableRole ''g1'' ''r1''),
                          Resolved (SvcCreateSelfAssignableRole ''g1'' ?r)])"
    by (simp add: spec_defs)
  from again found have second:
    "run (createSelfAssignableRole ?svc ''g1'' ?r) ?s1
       = (Inr None, ?s1, [Resolved (SvcFindSelfAssignableRole ''g1'' ''r1''), SendStatus 409])"
    by simp
  from fresh atmost have one: "length (filter (\<lambda>role. roleId role = ''r1'')
      (spec_findSelfAssignableRoles ''g1''
        (store_of (run (createSelfAssignableRole ?svc ''g1'' ?r) ?s0)))) = 1"
    by simp
  from absent first found second atmost one show ?thesis by blast
qed

subsection \<open>Deletion of a user's songs\<close>

lemma remove_rows_filter_gen:
  "\<forall>x \<in> set pre. \<not> q x \<Longrightarrow> remove_rows fails (filter q xs) (pre @ xs) = Inr ys \<Longrightarrow>
     ys = pre @ filter (\<lambda>x. \<not> q x) xs"
proof (induction xs arbitrary: pre)
  case Nil
  then show ?case by simp
next
  case (Cons x xs)
  show ?case
  proof (cases "q x")
    case True
    with Cons.prems have
      r: "remove_rows fails (filter q xs) (remove1 x (pre @ x # xs)) = Inr ys"
      by (auto split: if_splits)
    from True Cons.prems(1) have "x \<notin> set pre" by auto
    then have "remove1 x (pre @ x # xs) = pre @ xs" by (simp add: remove1_append)
    with r Cons.IH[OF Cons.prems(1)] True show ?thesis by simp
  next
    case False
    with Cons.prems have r: "remove_rows fails (filter q xs) ((pre @ [x]) @ xs) = Inr ys"
      by simp
    from False Cons.prems(1) have "\<forall>y \<in> set (pre @ [x]). \<not> q y" by auto
    from Cons.IH[OF this r] False show ?thesis by simp
  qed
qed

lemma remove_rows_filter:
  "remove_rows fails (filter q xs) xs = Inr ys \<Longrightarrow> ys = filter (\<lambda>x. \<not> q x) xs"
  using remove_rows_filter_gen[of "[]" q fails xs ys] by simp

lemma remove_rows_Inl:
  "remove_rows fails xs rows = Inl e \<Longrightarrow> e = StorageError \<and> list_ex fails xs"
  by (induction xs arbitrary: rows) (auto split: if_splits)

text \<open>
  Claim C8. The endpoint makes one service call and nothing else. On the store of the
  service contract the call either resolves, and then the playlist is the old one
  without the rows of guild \<open>g\<close> requested by \<open>u\<close> (all of them removed, every other
  row kept in its place, the rest of the store untouched), or it rejects with the
  engine's failure, and then the store is unchanged. When the engine fails at no
  qualifying row, the call resolves.
\<close>

theorem deleteSongsByUserId_all_or_none:
  "(ret (run (deleteSongsByUserId (GuildService_spec fails other) g u) s) = Inr None
      \<and> store_of (run (deleteSongsByUserId (GuildService_spec fails other) g u) s)
          = s\<lparr>song_rows :=
                filter (\<lambda>row. \<not> (fst row = g \<and> requestedBy (snd row) = u)) (song_rows s)\<rparr>
    \<or> ret (run (deleteSongsByUserId (GuildService_spec fails other) g u) s) = Inl StorageError
      \<and> store_of (run (deleteSongsByUserId (GuildService_spec fails other) g u) s) = s)
   \<and> (\<not> list_ex fails (filter (\<lambda>row. fst row = g \<and> requestedBy (snd row) = u) (song_rows s)) \<longrightarrow>
        ret (run (deleteSongsByUserId (GuildService_spec fails other) g u) s) = Inr None)
   \<and> actions (run (deleteSongsByUserId (GuildService_spec fails other) g u) s)
       = [case ret (run (deleteSongsByUserId (GuildService_spec fails other) g u) s) of
            Inl e \<Rightarrow> Rejected (SvcDeleteSongsByUserId g u) e
          | Inr v \<Rightarrow> Resolved (SvcDeleteSongsByUserId g u)]"
proof -
  let ?q = "requested_in g u"
  have q: "?q = (\<lambda>row. fst row = g \<and> requestedBy (snd row) = u)"
    by (auto simp: requested_in_def)
  show ?thesis
  proof (cases "remove_rows fails (filter ?q (song_rows s)) (song_rows s)")
    case (Inl e)
    from remove_rows_Inl[OF Inl] have "e = StorageError"
      and "list_ex fails (filter ?q (song_rows s))"
      by simp_all
    with Inl show ?thesis
      by (simp add: deleteSongsByUserId_def endpoint_defs spec_deleteSongsByUserId_def q)
  next
    case (Inr ys)
    from remove_rows_filter[OF Inr] have "ys = filter (\<lambda>x. \<not> ?q x) (song_rows s)" .
    with Inr show ?thesis
      by (simp add: deleteSongsByUserId_def endpoint_defs spec_deleteSongsByUserId_def q)
  qed
qed

text \<open>
  A playlist with two songs of user \<open>u1\<close> and one of \<open>u2\<close> in guild \<open>g1\<close>, and one
  song of \<open>u1\<close> in guild \<open>g2\<close>: only the two rows of \<open>u1\<close> in \<open>g1\<close> go.
\<close>

theorem deleteSongsByUserId_witness:
  "\<not> list_ex (\<lambda>row. False)
       (filter (\<lambda>row. fst row = ''g1'' \<and> requestedBy (snd row) = ''u1'')
         [(''g1'', \<lparr>song_id = Some 1, requestedBy = ''u1''\<rparr>),
          (''g1'', \<lparr>song_id = Some 2, requestedBy = ''u2''\<rparr>),
          (''g2'', \<lparr>song_id = Some 3, requestedBy = ''u1''\<rparr>),
          (''g1'', \<lparr>song_id = Some 4, requestedBy = ''u1''\<rparr>)])
   \<and> run (deleteSongsByUserId (GuildService_spec (\<lambda>row. False) unavailable) ''g1'' ''u1'')
       \<lparr>guild_rows = [], role_rows = [],
        song_rows = [(''g1'', \<lparr>song_id = Some 1, requestedBy = ''u1''\<rparr>),
                     (''g1'', \<lparr>song_id = Some 2, requestedBy = ''u2''\<rparr>),
                     (''g2'', \<lparr>song_id = Some 3, requestedBy = ''u1''\<rparr>),
                     (''g1'', \<lparr>song_id = Some 4, requestedBy = ''u1''\<rparr>)],
        song_seq = 5\<rparr>
     = (Inr None,
        \<lparr>guild_rows = [], role_rows = [],
         song_rows = [(''g1'', \<lparr>song_id = Some 2, requestedBy = ''u2''\<rparr>),
                      (''g2'', \<lparr>song_id = Some 3, requestedBy = ''u1''\<rparr>)],
         song_seq = 5\<rparr>,
        [Resolved (SvcDeleteSongsByUserId ''g1'' ''u1'')])"
  using deleteSongsByUserId_all_or_none
    [where fails = "\<lambda>row. False" and other = unavailable and g = "''g1''" and u = "''u1''"
       and s = "\<lparr>guild_rows = [], role_rows = [],
        song_rows = [(''g1'', \<lparr>song_id = Some 1, requestedBy = ''u1''\<rparr>),
                     (''g1'', \<lparr>song_id = Some 2, requestedBy = ''u2''\<rparr>),
                     (''g2'', \<lparr>song_id = Some 3, requestedBy = ''u1''\<rparr>),
                     (''g1'', \<lparr>song_id = Some 4, requestedBy = ''u1''\<rparr>)],
        song_seq = 5\<rparr>"]
  by (simp add: deleteSongsByUserId_def endpoint_defs spec_defs)


subsection \<open>Lookup of a guild\<close>

text \<open>
  Claim C5. When the service's lookup resolves with nothing, the endpoint sends status
  404 and returns nothing: it does not throw. When the lookup resolves with a guild,
  the endpoint returns that guild and sends no status.
\<close>

theorem findById_absent_is_404:
  "(guildService (SvcFindById i) db = (Inr None, db') \<longrightarrow>
      run (findById guildService i) db
        = (Inr None, db', [Resolved (SvcFindById i), SendStatus 404]))
   \<and> (guildService (SvcFindById i) db = (Inr (Some guild), db') \<longrightarrow>
      run (findById guildService i) db
        = (Inr (Some guild), db', [Resolved (SvcFindById i)]))"
  by (simp add: findById_def endpoint_defs)

text \<open>A store with guild \<open>g1\<close> only: the lookup of \<open>g2\<close> is a 404, that of \<open>g1\<close> the guild.\<close>

theorem findById_witness:
  "GuildService_spec (\<lambda>row. False) unavailable (SvcFindById ''g2'')
       \<lparr>guild_rows = [\<lparr>guild_id = ''g1'', guild_settings = \<lparr>settings_guild = ''g1''\<rparr>\<rparr>],
        role_rows = [], song_rows = [], song_seq = 1\<rparr>
     = (Inr None,
        \<lparr>guild_rows = [\<lparr>guild_id = ''g1'', guild_settings = \<lparr>settings_guild = ''g1''\<rparr>\<rparr>],
         role_rows = [], song_rows = [], song_seq = 1\<rparr>)
   \<and> run (findById (GuildService_spec (\<lambda>row. False) unavailable) ''g2'')
       \<lparr>guild_rows = [\<lparr>guild_id = ''g1'', guild_settings = \<lparr>settings_guild = ''g1''\<rparr>\<rparr>],
        role_rows = [], song_rows = [], song_seq = 1\<rparr>
     = (Inr None,
        \<lparr>guild_rows = [\<lparr>guild_id = ''g1'', guild_settings = \<lparr>settings_guild = ''g1''\<rparr>\<rparr>],
         role_rows = [], song_rows = [], song_seq = 1\<rparr>,
        [Resolved (SvcFindById ''g2''), SendStatus 404])
   \<and> run (findById (GuildService_spec (\<lambda>row. False) unavailable) ''g1'')
       \<lparr>guild_rows = [\<lparr>guild_id = ''g1'', guild_settings = \<lparr>settings_guild = ''g1''\<rparr>\<rparr>],
        role_rows = [], song_rows = [], song_seq = 1\<rparr>
     = (Inr (Some (EGuild \<lparr>guild_id = ''g1'', guild_settings = \<lparr>settings_guild = ''g1''\<rparr>\<rparr>)),
        \<lparr>guild_rows = [\<lparr>guild_id = ''g1'', guild_settings = \<lparr>settings_guild = ''g1''\<rparr>\<rparr>],
         role_rows = [], song_rows = [], song_seq = 1\<rparr>,
        [Resolved (SvcFindById ''g1'')])"
proof -
  let ?svc = "GuildService_spec (\<lambda>row. False) unavailable"
  let ?g1 = "\<lparr>guild_id = ''g1'', guild_settings = \<lparr>settings_guild = ''g1''\<rparr>\<rparr>"
  let ?s = "\<lparr>guild_rows = [?g1], role_rows = [], song_rows = [], song_seq = 1\<rparr>"
  have absent: "?svc (SvcFindById ''g2'') ?s = (Inr None, ?s)"
    by (simp add: spec_defs)
  have present: "?svc (SvcFindById ''g1'') ?s = (Inr (Some (EGuild ?g1)), ?s)"
    by (simp add: spec_defs)
  from absent findById_absent_is_404
    [where guildService = ?svc and i = "''g2''" and db = ?s and db' = ?s]
  have notfound: "run (findById ?svc ''g2'') ?s
      = (Inr None, ?s, [Resolved (SvcFindById ''g2''), SendStatus 404])"
    by simp
  from present findById_absent_is_404
    [where guildService = ?svc and i = "''g1''" and db = ?s and db' = ?s
       and guild = "EGuild ?g1"]
  have "run (findById ?svc ''g1'') ?s
      = (Inr (Some (EGuild ?g1)), ?s, [Resolved (SvcFindById ''g1'')])"
    by simp
  with absent notfound show ?thesis by blast
qed

subsection \<open>Notification of the socket\<close>

text \<open>
  Claim C3. Whatever the service does and whichever mutating route is called: an event
  is sent only directly after the route's own mutating service call has resolved, it is
  the last thing the route does, and the store is then the one that call committed; when
  a service call rejects, the route throws that error and sends no event.
\<close>

theorem notified_only_after_commit:
  "(\<forall>before ev p after.
       actions (run (handle guildService req) db) = before @ Send ev p # after \<longrightarrow>
       (\<exists>c v. c = (case req of
                    PostGuild guild \<Rightarrow> SvcCreate guild
                  | DeleteGuild i \<Rightarrow> SvcDelete i
                  | PutGuild i guild \<Rightarrow> SvcUpdate i guild
                  | PostSuggestion i suggestion \<Rightarrow> SvcCreateSuggestion i suggestion
                  | PutSuggestion i k suggestion \<Rightarrow> SvcUpdateSuggestion i k suggestion
                  | DeleteSuggestion i k \<Rightarrow> SvcDeleteSuggestion i k
                  | PostSupportTicket i t \<Rightarrow> SvcCreateSupportTicket i t
                  | PutSupportTicket i k t \<Rightarrow> SvcUpdateSupportTicket i k t
                  | DeleteSupportTicket i k \<Rightarrow> SvcDeleteSupportTicket i k
                  | PutSettings i settings \<Rightarrow> SvcUpdateSettings i settings
                  | PostUser i user \<Rightarrow> SvcCreateUser i user
                  | PutUser i k user \<Rightarrow> SvcUpdateUser i k user
                  | DeleteUser i k \<Rightarrow> SvcDeleteUser i k
                  | PostSelfAssignableRole i r \<Rightarrow> SvcCreateSelfAssignableRole i r
                  | DeleteSelfAssignableRole i r \<Rightarrow> SvcDeleteSelfAssignableRole i r
                  | PostSong i song \<Rightarrow> SvcCreateSong i song
                  | DeletePlaylist i \<Rightarrow> SvcClearPlaylist i
                  | DeleteSongsOfUser i k \<Rightarrow> SvcDeleteSongsByUserId i k
                  | DeleteSong i k \<Rightarrow> SvcDeleteSong i k)
              \<and> before = [Resolved c] \<and> after = []
              \<and> guildService c db = (Inr v, store_of (run (handle guildService req) db))))
   \<and> ((\<exists>c e. Rejected c e \<in> set (actions (run (handle guildService req) db))) \<longrightarrow>
        sends (actions (run (handle guildService req) db)) = [])
   \<and> (\<forall>e. ret (run (handle guildService req) db) = Inl e \<longrightarrow>
        sends (actions (run (handle guildService req) db)) = []
        \<and> (\<exists>c. last (actions (run (handle guildService req) db)) = Rejected c e))"
  by (cases req)
     (auto simp: endpoint_defs route_defs Cons_eq_append_conv append_eq_Cons_conv
           split: prod.splits sum.splits)

text \<open>
  Guild \<open>g1\<close> is stored. Updating it resolves, the event follows the update and the
  store holds the new row; updating the absent \<open>g2\<close> is rejected as not found and no
  event is sent.
\<close>

theorem notified_only_after_commit_witness:
  "actions (run (handle (GuildService_spec (\<lambda>row. False) unavailable)
       (PutGuild ''g1'' \<lparr>guild_id = ''g1'', guild_settings = \<lparr>settings_guild = ''x''\<rparr>\<rparr>))
       \<lparr>guild_rows = [\<lparr>guild_id = ''g1'', guild_settings = \<lparr>settings_guild = ''g1''\<rparr>\<rparr>],
        role_rows = [], song_rows = [], song_seq = 1\<rparr>)
     = [Resolved (SvcUpdate ''g1'' \<lparr>guild_id = ''g1'', guild_settings = \<lparr>settings_guild = ''x''\<rparr>\<rparr>)]
       @ Send GUILD_UPDATE (PGuild \<lparr>guild_id = ''g1'', guild_settings = \<lparr>settings_guild = ''x''\<rparr>\<rparr>)
       # []
   \<and> (\<exists>v. GuildService_spec (\<lambda>row. False) unavailable
         (SvcUpdate ''g1'' \<lparr>guild_id = ''g1'', guild_settings = \<lparr>settings_guild = ''x''\<rparr>\<rparr>)
         \<lparr>guild_rows = [\<lparr>guild_id = ''g1'', guild_settings = \<lparr>settings_guild = ''g1''\<rparr>\<rparr>],
          role_rows = [], song_rows = [], song_seq = 1\<rparr>
       = (Inr v, store_of (run (handle (GuildService_spec (\<lambda>row. False) unavailable)
           (PutGuild ''g1'' \<lparr>guild_id = ''g1'', guild_settings = \<lparr>settings_guild = ''x''\<rparr>\<rparr>))
           \<lparr>guild_rows = [\<lparr>guild_id = ''g1'', guild_settings = \<lparr>settings_guild = ''g1''\<rparr>\<rparr>],
            role_rows = [], song_rows = [], song_seq = 1\<rparr>)))
   \<and> store_of (run (handle (GuildService_spec (\<lambda>row. False) unavailable)
       (PutGuild ''g1'' \<lparr>guild_id = ''g1'', guild_settings = \<lparr>settings_guild = ''x''\<rparr>\<rparr>))
       \<lparr>guild_rows = [\<lparr>guild_id = ''g1'', guild_settings = \<lparr>settings_guild = ''g1''\<rparr>\<rparr>],
        role_rows = [], song_rows = [], song_seq = 1\<rparr>)
     = \<lparr>guild_rows = [\<lparr>guild_id = ''g1'', guild_settings = \<lparr>settings_guild = ''x''\<rparr>\<rparr>],
        role_rows = [], song_rows = [], song_seq = 1\<rparr>
   \<and> run (handle (GuildService_spec (\<lambda>row. False) unavailable)
       (PutGuild ''g2'' \<lparr>guild_id = ''g2'', guild_settings = \<lparr>settings_guild = ''x''\<rparr>\<rparr>))
       \<lparr>guild_rows = [\<lparr>guild_id = ''g1'', guild_settings = \<lparr>settings_guild = ''g1''\<rparr>\<rparr>],
        role_rows = [], song_rows = [], song_seq = 1\<rparr>
     = (Inl NotFoundError,
        \<lparr>guild_rows = [\<lparr>guild_id = ''g1'', guild_settings = \<lparr>settings_guild = ''g1''\<rparr>\<rparr>],
         role_rows = [], song_rows = [], song_seq = 1\<rparr>,
        [Rejected (SvcUpdate ''g2'' \<lparr>guild_id = ''g2'', guild_settings = \<lparr>settings_guild = ''x''\<rparr>\<rparr>)
           NotFoundError])
   \<and> sends (actions (run (handle (GuildService_spec (\<lambda>row. False) unavailable)
       (PutGuild ''g2'' \<lparr>guild_id = ''g2'', guild_settings = \<lparr>settings_guild = ''x''\<rparr>\<rparr>))
       \<lparr>guild_rows = [\<lparr>guild_id = ''g1'', guild_settings = \<lparr>settings_guild = ''g1''\<rparr>\<rparr>],
        role_rows = [], song_rows = [], song_seq = 1\<rparr>)) = []"
proof -
  let ?svc = "GuildService_spec (\<lambda>row. False) unavailable"
  let ?g1 = "\<lparr>guild_id = ''g1'', guild_settings = \<lparr>settings_guild = ''g1''\<rparr>\<rparr>"
  let ?new1 = "\<lparr>guild_id = ''g1'', guild_settings = \<lparr>settings_guild = ''x''\<rparr>\<rparr>"
  let ?new2 = "\<lparr>guild_id = ''g2'', guild_settings = \<lparr>settings_guild = ''x''\<rparr>\<rparr>"
  let ?s = "\<lparr>guild_rows = [?g1], role_rows = [], song_rows = [], song_seq = 1\<rparr>"
  let ?s' = "\<lparr>guild_rows = [?new1], role_rows = [], song_rows = [], song_seq = 1\<rparr>"
  have ok: "actions (run (handle ?svc (PutGuild ''g1'' ?new1)) ?s)
      = [Resolved (SvcUpdate ''g1'' ?new1)] @ Send GUILD_UPDATE (PGuild ?new1) # []"
    by (simp add: updateById_def endpoint_defs spec_defs)
  note after_commit = notified_only_after_commit
    [where guildService = ?svc and req = "PutGuild ''g1'' ?new1" and db = ?s,
      THEN conjunct1, rule_format, OF ok]
  have committed: "\<exists>v. ?svc (SvcUpdate ''g1'' ?new1) ?s
      = (Inr v, store_of (run (handle ?svc (PutGuild ''g1'' ?new1)) ?s))"
    using after_commit by simp
  have stored: "store_of (run (handle ?svc (PutGuild ''g1'' ?new1)) ?s) = ?s'"
    by (simp add: updateById_def endpoint_defs spec_defs)
  have failed: "run (handle ?svc (PutGuild ''g2'' ?new2)) ?s
      = (Inl NotFoundError, ?s, [Rejected (SvcUpdate ''g2'' ?new2) NotFoundError])"
    by (simp add: updateById_def endpoint_defs spec_defs)
  then have "ret (run (handle ?svc (PutGuild ''g2'' ?new2)) ?s) = Inl NotFoundError"
    by (simp add: ret_def)
  note rejected = notified_only_after_commit
    [where guildService = ?svc and req = "PutGuild ''g2'' ?new2" and db = ?s,
      THEN conjunct2, THEN conjunct2, rule_format, OF this, THEN conjunct1]
  show ?thesis
    by (rule conjI[OF ok conjI[OF committed conjI[OF stored conjI[OF failed rejected]]]])
qed

text \<open>
  Claim C2, against the claim as stated: a song is created in the playlist of guild
  \<open>g1\<close>; the service resolves with the stored song, the store holds the new row, and
  no event is sent.
\<close>

theorem createSong_sends_no_event:
  "ret (run (createSong (GuildService_spec (\<lambda>row. False) unavailable) ''g1''
          \<lparr>song_id = None, requestedBy = ''u1''\<rparr>)
       \<lparr>guild_rows = [\<lparr>guild_id = ''g1'', guild_settings = \<lparr>settings_guild = ''g1''\<rparr>\<rparr>],
        role_rows = [], song_rows = [], song_seq = 1\<rparr>)
     = Inr (Some (ESong \<lparr>song_id = Some 1, requestedBy = ''u1''\<rparr>))
   \<and> store_of (run (createSong (GuildService_spec (\<lambda>row. False) unavailable) ''g1''
          \<lparr>song_id = None, requestedBy = ''u1''\<rparr>)
       \<lparr>guild_rows = [\<lparr>guild_id = ''g1'', guild_settings = \<lparr>settings_guild = ''g1''\<rparr>\<rparr>],
        role_rows = [], song_rows = [], song_seq = 1\<rparr>)
     = \<lparr>guild_rows = [\<lparr>guild_id = ''g1'', guild_settings = \<lparr>settings_guild = ''g1''\<rparr>\<rparr>],
        role_rows = [], song_rows = [(''g1'', \<lparr>song_id = Some 1, requestedBy = ''u1''\<rparr>)],
        song_seq = 2\<rparr>
   \<and> sends (actions (run (createSong (GuildService_spec (\<lambda>row. False) unavailable) ''g1''
          \<lparr>song_id = None, requestedBy = ''u1''\<rparr>)
       \<lparr>guild_rows = [\<lparr>guild_id = ''g1'', guild_settings = \<lparr>settings_guild = ''g1''\<rparr>\<rparr>],
        role_rows = [], song_rows = [], song_seq = 1\<rparr>)) = []"
  by (simp add: createSong_def endpoint_defs spec_defs)

text \<open>
  Claim C2, as amended. For guilds, suggestions, support tickets, settings and users, a
  mutation through the controller that does not throw sends exactly one event, named
  after the aggregate and the operation, whose payload is the request body (create and
  update) or the id or key of the deleted row (delete); a mutation whose service call
  rejects sends no event. For self-assignable roles and playlist songs the controller
  sends no event at all, whether the mutation succeeds or not.
\<close>

theorem events_of_mutations:
  "sends (actions (run (handle guildService req) db))
     = (case ret (run (handle guildService req) db) of
          Inl e \<Rightarrow> []
        | Inr u \<Rightarrow>
           (case req of
              PostGuild guild \<Rightarrow> [(GUILD_CREATE, PGuild guild)]
            | DeleteGuild i \<Rightarrow> [(GUILD_DELETE, PGuildId i)]
            | PutGuild i guild \<Rightarrow> [(GUILD_UPDATE, PGuild guild)]
            | PostSuggestion i suggestion \<Rightarrow> [(GUILD_SUGGESTION_CREATE, PSuggestion suggestion)]
            | PutSuggestion i k suggestion \<Rightarrow> [(GUILD_SUGGESTION_UPDATE, PSuggestion suggestion)]
            | DeleteSuggestion i k \<Rightarrow> [(GUILD_SUGGESTION_DELETE, PSuggestionKey i k)]
            | PostSupportTicket i t \<Rightarrow> [(GUILD_SUPPORT_TICKET_CREATE, PSupportTicket t)]
            | PutSupportTicket i k t \<Rightarrow> [(GUILD_SUPPORT_TICKET_UPDATE, PSupportTicket t)]
            | DeleteSupportTicket i k \<Rightarrow> [(GUILD_SUPPORT_TICKET_DELETE, PSupportTicketKey i k)]
            | PutSettings i settings \<Rightarrow> [(GUILD_SETTINGS_UPDATE, PSettings settings)]
            | PostUser i user \<Rightarrow> [(GUILD_USER_CREATE, PUser user)]
            | PutUser i k user \<Rightarrow> [(GUILD_USER_UPDATE, PUser user)]
            | DeleteUser i k \<Rightarrow> [(GUILD_USER_DELETE, PUserKey i k)]
            | PostSelfAssignableRole i r \<Rightarrow> []
            | DeleteSelfAssignableRole i r \<Rightarrow> []
            | PostSong i song \<Rightarrow> []
            | DeletePlaylist i \<Rightarrow> []
            | DeleteSongsOfUser i k \<Rightarrow> []
            | DeleteSong i k \<Rightarrow> []))"
  by (cases req)
     (auto simp: endpoint_defs route_defs split: prod.splits sum.splits)

text \<open>
  Guild \<open>g1\<close> is stored: creating \<open>g2\<close> sends one event with the body, creating
  \<open>g1\<close> again is a conflict with no event, and deleting a role that is not stored is
  rejected with no event.
\<close>

theorem events_of_mutations_witness:
  "sends (actions (run (handle (GuildService_spec (\<lambda>row. False) unavailable)
       (PostGuild \<lparr>guild_id = ''g2'', guild_settings = \<lparr>settings_guild = ''g2''\<rparr>\<rparr>))
       \<lparr>guild_rows = [\<lparr>guild_id = ''g1'', guild_settings = \<lparr>settings_guild = ''g1''\<rparr>\<rparr>],
        role_rows = [], song_rows = [], song_seq = 1\<rparr>))
     = [(GUILD_CREATE, PGuild \<lparr>guild_id = ''g2'', guild_settings = \<lparr>settings_guild = ''g2''\<rparr>\<rparr>)]
   \<and> ret (run (handle (GuildService_spec (\<lambda>row. False) unavailable)
       (PostGuild \<lparr>guild_id = ''g1'', guild_settings = \<lparr>settings_guild = ''g1''\<rparr>\<rparr>))
       \<lparr>guild_rows = [\<lparr>guild_id = ''g1'', guild_settings = \<lparr>settings_guild = ''g1''\<rparr>\<rparr>],
        role_rows = [], song_rows = [], song_seq = 1\<rparr>) = Inl ConflictError
   \<and> sends (actions (run (handle (GuildService_spec (\<lambda>row. False) unavailable)
       (PostGuild \<lparr>guild_id = ''g1'', guild_settings = \<lparr>settings_guild = ''g1''\<rparr>\<rparr>))
       \<lparr>guild_rows = [\<lparr>guild_id = ''g1'', guild_settings = \<lparr>settings_guild = ''g1''\<rparr>\<rparr>],
        role_rows = [], song_rows = [], song_seq = 1\<rparr>)) = []
   \<and> sends (actions (run (handle (GuildService_spec (\<lambda>row. False) unavailable)
       (DeleteSelfAssignableRole ''g1'' ''r1''))
       \<lparr>guild_rows = [\<lparr>guild_id = ''g1'', guild_settings = \<lparr>settings_guild = ''g1''\<rparr>\<rparr>],
        role_rows = [], song_rows = [], song_seq = 1\<rparr>)) = []"
proof -
  let ?svc = "GuildService_spec (\<lambda>row. False) unavailable"
  let ?g1 = "\<lparr>guild_id = ''g1'', guild_settings = \<lparr>settings_guild = ''g1''\<rparr>\<rparr>"
  let ?g2 = "\<lparr>guild_id = ''g2'', guild_settings = \<lparr>settings_guild = ''g2''\<rparr>\<rparr>"
  let ?s = "\<lparr>guild_rows = [?g1], role_rows = [], song_rows = [], song_seq = 1\<rparr>"
  have created: "ret (run (handle ?svc (PostGuild ?g2)) ?s) = Inr ()"
    by (simp add: create_def endpoint_defs spec_defs)
  have conflict: "ret (run (handle ?svc (PostGuild ?g1)) ?s) = Inl ConflictError"
    by (simp add: create_def endpoint_defs spec_defs)
  have absent: "ret (run (handle ?svc (DeleteSelfAssignableRole ''g1'' ''r1'')) ?s)
      = Inl NotFoundError"
    by (simp add: deleteSelfAssignableRole_def endpoint_defs spec_defs)
  from created events_of_mutations[where guildService = ?svc and req = "PostGuild ?g2" and db = ?s]
  have one: "sends (actions (run (handle ?svc (PostGuild ?g2)) ?s)) = [(GUILD_CREATE, PGuild ?g2)]"
    by simp
  from conflict events_of_mutations[where guildService = ?svc and req = "PostGuild ?g1" and db = ?s]
  have none: "sends (actions (run (handle ?svc (PostGuild ?g1)) ?s)) = []"
    by simp
  from absent events_of_mutations
    [where guildService = ?svc and req = "DeleteSelfAssignableRole ''g1'' ''r1''" and db = ?s]
  have "sends (actions (run (handle ?svc (DeleteSelfAssignableRole ''g1'' ''r1'')) ?s)) = []"
    by simp
  with one conflict none show ?thesis by blast
qed


section \<open>Properties of the entity constructors\<close>

lemma assign_field_fresh: "assign_field None source = source"
  by (cases source) (simp_all add: assign_field_def)

lemma GuildUserWarning_new_copies: "GuildUserWarning_new (Some w) = w"
  by (simp add: GuildUserWarning_new_def GuildUserWarning_assign_def GuildUserWarning_fresh_def
      assign_field_fresh)

lemma GuildUserKick_new_copies: "GuildUserKick_new (Some k) = k"
  by (simp add: GuildUserKick_new_def GuildUserKick_assign_def GuildUserKick_fresh_def
      assign_field_fresh)

lemma Referral_new_copies: "Referral_new now (Some r) = r\<lparr>dateCreated := Some now\<rparr>"
  by (simp add: Referral_new_def Referral_assign_def Referral_fresh_def assign_field_fresh)

text \<open>
  Claim C6, against the claim as stated: a referral snapshot created at time 1000 is
  passed to the constructor at time 2000 and again at time 3000. The date of the
  snapshot is not copied, and the two instances differ.
\<close>

theorem Referral_new_not_a_copy:
  "dateCreated (Referral_new 2000 (Some
       \<lparr>dateCreated = Some 1000, referral_guild = None, referral_id = Some 4711,
        inviteUrl = Some ''discord.gg/abc'', joinCount = Some 3,
        referral_role = (None :: unit option), unlockedRewards = (Some [] :: unit list option),
        referral_user = (None :: unit option)\<rparr>))
     \<noteq> dateCreated
       \<lparr>dateCreated = Some 1000, referral_guild = None, referral_id = Some 4711,
        inviteUrl = Some ''discord.gg/abc'', joinCount = Some 3,
        referral_role = (None :: unit option), unlockedRewards = (Some [] :: unit list option),
        referral_user = (None :: unit option)\<rparr>
   \<and> Referral_new 2000 (Some
       \<lparr>dateCreated = Some 1000, referral_guild = None, referral_id = Some 4711,
        inviteUrl = Some ''discord.gg/abc'', joinCount = Some 3,
        referral_role = (None :: unit option), unlockedRewards = (Some [] :: unit list option),
        referral_user = (None :: unit option)\<rparr>)
     \<noteq> Referral_new 3000 (Some
       \<lparr>dateCreated = Some 1000, referral_guild = None, referral_id = Some 4711,
        inviteUrl = Some ''discord.gg/abc'', joinCount = Some 3,
        referral_role = (None :: unit option), unlockedRewards = (Some [] :: unit list option),
        referral_user = (None :: unit option)\<rparr>)"
  by (simp add: Referral_new_copies)

text \<open>
  Claim C6, as amended. The constructors of GuildUserWarning and GuildUserKick copy
  every field of the snapshot, so the instance equals the snapshot and constructing from
  it again gives the same instance. The constructor of Referral copies every field but
  \<open>dateCreated\<close>, which it sets to the time of construction: two instances built from
  one snapshot agree on all other fields, and are equal when built at the same time.
\<close>

theorem constructors_copy_snapshot:
  "GuildUserWarning_new (Some w) = w
   \<and> GuildUserWarning_new (Some (GuildUserWarning_new (Some w))) = GuildUserWarning_new (Some w)
   \<and> GuildUserKick_new (Some k) = k
   \<and> GuildUserKick_new (Some (GuildUserKick_new (Some k))) = GuildUserKick_new (Some k)
   \<and> Referral_new now (Some r) = r\<lparr>dateCreated := Some now\<rparr>
   \<and> Referral_new now (Some r) = (Referral_new later (Some r))\<lparr>dateCreated := Some now\<rparr>
   \<and> Referral_new now (Some (Referral_new now (Some r))) = Referral_new now (Some r)"
  by (simp add: GuildUserWarning_new_copies GuildUserKick_new_copies Referral_new_copies)

text \<open>
  Claim C7, against the claim as stated: the snapshot carries the creation date 1000
  and the constructor runs at time 5000; the instance carries 5000, not 1000.
\<close>

theorem Referral_new_overwrites_date:
  "dateCreated (Referral_new 5000 (Some
       \<lparr>dateCreated = Some 1000, referral_guild = None, referral_id = Some 12,
        inviteUrl = None, joinCount = Some 0,
        referral_role = (None :: unit option), unlockedRewards = (None :: unit list option),
        referral_user = (None :: unit option)\<rparr>)) = Some 5000
   \<and> dateCreated (Referral_new 5000 (Some
       \<lparr>dateCreated = Some 1000, referral_guild = None, referral_id = Some 12,
        inviteUrl = None, joinCount = Some 0,
        referral_role = (None :: unit option), unlockedRewards = (None :: unit list option),
        referral_user = (None :: unit option)\<rparr>)) \<noteq> Some 1000"
  by (simp add: Referral_new_def)

text \<open>
  Claim C7, as amended. The Referral constructor always sets \<open>dateCreated\<close> to the time
  of construction, with or without a snapshot and whether or not the snapshot carries a
  date; a date in the snapshot is overwritten.
\<close>

theorem Referral_new_stamps_always:
  "dateCreated (Referral_new now referral) = Some now
   \<and> Referral_new now None = Referral_fresh\<lparr>dateCreated := Some now\<rparr>"
  by (simp add: Referral_new_def)

section \<open>Properties of the unique index\<close>

lemma warned_iff: "u \<in> set (warned rows) \<longleftrightarrow> (\<exists>w \<in> set rows. warning_user w = Some u)"
  by (induction rows) (auto simp: warned_def split: option.splits)

lemma kicked_iff: "u \<in> set (kicked rows) \<longleftrightarrow> (\<exists>k \<in> set rows. kick_user k = Some u)"
  by (induction rows) (auto simp: kicked_def split: option.splits)

lemma warned_append: "warned (rows @ [w]) = warned rows @ (case warning_user w of None \<Rightarrow> [] | Some u \<Rightarrow> [u])"
  by (simp add: warned_def)

lemma kicked_append: "kicked (rows @ [k]) = kicked rows @ (case kick_user k of None \<Rightarrow> [] | Some u \<Rightarrow> [u])"
  by (simp add: kicked_def)

lemma Ref_cell_eq: "(Some (Ref a) = map_option Ref x) = (x = Some a)"
  by (cases x) auto

lemma GuildUserWarning_insert_eq:
  "GuildUserWarning_insert w rows =
     (if \<exists>u. warning_user w = Some u \<and> u \<in> set (warned rows) then Inl ConflictError
      else Inr (rows @ [w]))"
  by (cases "warning_user w")
     (auto simp: GuildUserWarning_insert_def insert_unique_def index_clash_def
        GuildUserWarning_unique_index_def list_ex_iff warned_iff Ref_cell_eq)

lemma GuildUserKick_insert_eq:
  "GuildUserKick_insert k rows =
     (if \<exists>u. kick_user k = Some u \<and> u \<in> set (kicked rows) then Inl ConflictError
      else Inr (rows @ [k]))"
  by (cases "kick_user k")
     (auto simp: GuildUserKick_insert_def insert_unique_def index_clash_def
        GuildUserKick_unique_index_def list_ex_iff kicked_iff Ref_cell_eq)

text \<open>
  Claim C4, against the claim as stated: user \<open>mod1\<close> has warned (kicked) user
  \<open>member\<close>; a record of another issuer, \<open>mod2\<close>, against the same target is refused
  by the index.
\<close>

theorem second_issuer_refused:
  "GuildUserWarning_insert
       \<lparr>warning_id = Some 2, warning_issuer = Some ''mod2'', warning_reason = Some ''spam'',
        warning_timestamp = Some 2000, warning_user = Some ''member''\<rparr>
       [\<lparr>warning_id = Some 1, warning_issuer = Some ''mod1'', warning_reason = Some ''flood'',
         warning_timestamp = Some 1000, warning_user = Some ''member''\<rparr>]
     = Inl ConflictError
   \<and> GuildUserKick_insert
       \<lparr>kick_id = Some 2, kick_issuer = Some ''mod2'', kick_reason = Some ''spam'',
        kick_timestamp = Some 2000, kick_user = Some ''member''\<rparr>
       [\<lparr>kick_id = Some 1, kick_issuer = Some ''mod1'', kick_reason = Some ''flood'',
         kick_timestamp = Some 1000, kick_user = Some ''member''\<rparr>]
     = Inl ConflictError"
  by (simp add: GuildUserWarning_insert_def GuildUserKick_insert_def insert_unique_def
      index_clash_def GuildUserWarning_unique_index_def GuildUserKick_unique_index_def)

text \<open>
  Claim C4, as amended. The unique index of GuildUserWarning and of GuildUserKick covers
  the target user alone; the issuer is not part of it. A record is refused exactly when
  a stored record has the same target user, whoever issued either, and is appended
  otherwise; so the stored records have pairwise different targets: at most one record
  per target user.
\<close>

theorem one_record_per_target:
  "GuildUserWarning_unique_index = [ColUser]
   \<and> GuildUserKick_unique_index = [ColUser]
   \<and> GuildUserWarning_insert w rows =
       (if \<exists>u. warning_user w = Some u \<and> u \<in> set (warned rows) then Inl ConflictError
        else Inr (rows @ [w]))
   \<and> GuildUserKick_insert k krows =
       (if \<exists>u. kick_user k = Some u \<and> u \<in> set (kicked krows) then Inl ConflictError
        else Inr (krows @ [k]))
   \<and> (distinct (warned rows) \<and> GuildUserWarning_insert w rows = Inr rows' \<longrightarrow>
        distinct (warned rows'))
   \<and> (distinct (kicked krows) \<and> GuildUserKick_insert k krows = Inr krows' \<longrightarrow>
        distinct (kicked krows'))"
proof (intro conjI impI)
  assume "distinct (warned rows) \<and> GuildUserWarning_insert w rows = Inr rows'"
  then show "distinct (warned rows')"
    by (cases "warning_user w")
       (auto simp: GuildUserWarning_insert_eq warned_append split: if_splits)
next
  assume "distinct (kicked krows) \<and> GuildUserKick_insert k krows = Inr krows'"
  then show "distinct (kicked krows')"
    by (cases "kick_user k")
       (auto simp: GuildUserKick_insert_eq kicked_append split: if_splits)
qed (simp_all add: GuildUserWarning_unique_index_def GuildUserKick_unique_index_def
      GuildUserWarning_insert_eq GuildUserKick_insert_eq)

text \<open>
  \<open>mod1\<close> has warned and kicked \<open>member\<close>. A record of \<open>mod1\<close> against another
  user, \<open>guest\<close>, is stored, and the targets stay pairwise different.
\<close>

theorem one_record_per_target_witness:
  "distinct (warned
       [\<lparr>warning_id = Some 1, warning_issuer = Some ''mod1'', warning_reason = Some ''flood'',
         warning_timestamp = Some 1000, warning_user = Some ''member''\<rparr>])
   \<and> GuildUserWarning_insert
       \<lparr>warning_id = Some 2, warning_issuer = Some ''mod1'', warning_reason = Some ''spam'',
        warning_timestamp = Some 2000, warning_user = Some ''guest''\<rparr>
       [\<lparr>warning_id = Some 1, warning_issuer = Some ''mod1'', warning_reason = Some ''flood'',
         warning_timestamp = Some 1000, warning_user = Some ''member''\<rparr>]
     = Inr [\<lparr>warning_id = Some 1, warning_issuer = Some ''mod1'', warning_reason = Some ''flood'',
             warning_timestamp = Some 1000, warning_user = Some ''member''\<rparr>,
            \<lparr>warning_id = Some 2, warning_issuer = Some ''mod1'', warning_reason = Some ''spam'',
             warning_timestamp = Some 2000, warning_user = Some ''guest''\<rparr>]
   \<and> distinct (warned
       [\<lparr>warning_id = Some 1, warning_issuer = Some ''mod1'', warning_reason = Some ''flood'',
         warning_timestamp = Some 1000, warning_user = Some ''member''\<rparr>,
        \<lparr>warning_id = Some 2, warning_issuer = Some ''mod1'', warning_reason = Some ''spam'',
         warning_timestamp = Some 2000, warning_user = Some ''guest''\<rparr>])
   \<and> distinct (kicked
       [\<lparr>kick_id = Some 1, kick_issuer = Some ''mod1'', kick_reason = Some ''flood'',
         kick_timestamp = Some 1000, kick_user = Some ''member''\<rparr>])
   \<and> GuildUserKick_insert
       \<lparr>kick_id = Some 2, kick_issuer = Some ''mod1'', kick_reason = Some ''spam'',
        kick_timestamp = Some 2000, kick_user = Some ''guest''\<rparr>
       [\<lparr>kick_id = Some 1, kick_issuer = Some ''mod1'', kick_reason = Some ''flood'',
         kick_timestamp = Some 1000, kick_user = Some ''member''\<rparr>]
     = Inr [\<lparr>kick_id = Some 1, kick_issuer = Some ''mod1'', kick_reason = Some ''flood'',
             kick_timestamp = Some 1000, kick_user = Some ''member''\<rparr>,
            \<lparr>kick_id = Some 2, kick_issuer = Some ''mod1'', kick_reason = Some ''spam'',
             kick_timestamp = Some 2000, kick_user = Some ''guest''\<rparr>]
   \<and> distinct (kicked
       [\<lparr>kick_id = Some 1, kick_issuer = Some ''mod1'', kick_reason = Some ''flood'',
         kick_timestamp = Some 1000, kick_user = Some ''member''\<rparr>,
        \<lparr>kick_id = Some 2, kick_issuer = Some ''mod1'', kick_reason = Some ''spam'',
         kick_timestamp = Some 2000, kick_user = Some ''guest''\<rparr>])"
proof -
  let ?w1 = "\<lparr>warning_id = Some 1, warning_issuer = Some ''mod1'', warning_reason = Some ''flood'',
         warning_timestamp = Some 1000, warning_user = Some ''member''\<rparr>"
  let ?w2 = "\<lparr>warning_id = Some 2, warning_issuer = Some ''mod1'', warning_reason = Some ''spam'',
        warning_timestamp = Some 2000, warning_user = Some ''guest''\<rparr>"
  let ?k1 = "\<lparr>kick_id = Some 1, kick_issuer = Some ''mod1'', kick_reason = Some ''flood'',
         kick_timestamp = Some 1000, kick_user = Some ''member''\<rparr>"
  let ?k2 = "\<lparr>kick_id = Some 2, kick_issuer = Some ''mod1'', kick_reason = Some ''spam'',
        kick_timestamp = Some 2000, kick_user = Some ''guest''\<rparr>"
  note claim = one_record_per_target
    [where w = ?w2 and rows = "[?w1]" and rows' = "[?w1, ?w2]"
       and k = ?k2 and krows = "[?k1]" and krows' = "[?k1, ?k2]"]
  have dw: "distinct (warned [?w1])" by (simp add: warned_def)
  have dk: "distinct (kicked [?k1])" by (simp add: kicked_def)
  from claim have iw: "GuildUserWarning_insert ?w2 [?w1] = Inr [?w1, ?w2]"
    by (simp add: warned_def)
  from claim have ik: "GuildUserKick_insert ?k2 [?k1] = Inr [?k1, ?k2]"
    by (simp add: kicked_def)
  from claim dw iw have "distinct (warned [?w1, ?w2])" by blast
  moreover from claim dk ik have "distinct (kicked [?k1, ?k2])" by blast
  ultimately show ?thesis using dw dk iw ik by blast
qed


section \<open>Properties of the user controller\<close>

text \<open>
  Claim C9. \<open>userHasPremium\<close> is false when the premium configuration is absent, when
  the role id or the primary guild id is absent (or empty), when the primary guild is
  not in the client's cache, and when the id is not a member of the primary guild, also
  for the owner of the bot. When it is true, the id is a member of the primary guild,
  and is the owner or has the premium role.
\<close>

theorem userHasPremium_requires_membership:
  "(premium (optional config) = None \<longrightarrow> \<not> userHasPremium config i client)
   \<and> (\<forall>p. premium (optional config) = Some p
           \<and> (falsy (premiumPatreonRoleId p) \<or> falsy (primaryGuildId p)) \<longrightarrow>
         \<not> userHasPremium config i client)
   \<and> (\<forall>p g. premium (optional config) = Some p \<and> primaryGuildId p = Some g
           \<and> guilds client g = None \<longrightarrow>
         \<not> userHasPremium config i client)
   \<and> (\<forall>p g guild. premium (optional config) = Some p \<and> primaryGuildId p = Some g
           \<and> guilds client g = Some guild \<and> members guild i = None \<longrightarrow>
         \<not> userHasPremium config i client)
   \<and> (userHasPremium config i client \<longrightarrow>
         (\<exists>p r g guild member. premium (optional config) = Some p
            \<and> premiumPatreonRoleId p = Some r \<and> r \<noteq> [] \<and> primaryGuildId p = Some g \<and> g \<noteq> []
            \<and> guilds client g = Some guild \<and> members guild i = Some member
            \<and> (isOwner client i \<or> r \<in> roles member)))"
  by (auto simp: userHasPremium_def falsy_def split: option.splits if_splits)

text \<open>
  The premium role is \<open>patron\<close> in guild \<open>home\<close>, whose only member is \<open>alice\<close>, a
  patron. The owner of the bot, \<open>root\<close>, is not a member of \<open>home\<close>: no premium.
  \<open>alice\<close> has premium. Without a premium section nobody has.
\<close>

theorem userHasPremium_witness:
  "members \<lparr>members = (\<lambda>u. if u = ''alice'' then Some \<lparr>roles = {''patron''}\<rparr> else None)\<rparr> ''root''
     = None
   \<and> \<not> userHasPremium
       \<lparr>bot = None,
        optional = \<lparr>premium = Some \<lparr>premiumPatreonRoleId = Some ''patron'',
                                     primaryGuildId = Some ''home''\<rparr>\<rparr>\<rparr>
       ''root''
       \<lparr>guilds = (\<lambda>g. if g = ''home''
           then Some \<lparr>members = (\<lambda>u. if u = ''alice'' then Some \<lparr>roles = {''patron''}\<rparr> else None)\<rparr>
           else None),
        isOwner = (\<lambda>u. u = ''root'')\<rparr>
   \<and> userHasPremium
       \<lparr>bot = None,
        optional = \<lparr>premium = Some \<lparr>premiumPatreonRoleId = Some ''patron'',
                                     primaryGuildId = Some ''home''\<rparr>\<rparr>\<rparr>
       ''alice''
       \<lparr>guilds = (\<lambda>g. if g = ''home''
           then Some \<lparr>members = (\<lambda>u. if u = ''alice'' then Some \<lparr>roles = {''patron''}\<rparr> else None)\<rparr>
           else None),
        isOwner = (\<lambda>u. u = ''root'')\<rparr>
   \<and> \<not> userHasPremium
       \<lparr>bot = None, optional = \<lparr>premium = None\<rparr>\<rparr>
       ''alice''
       \<lparr>guilds = (\<lambda>g. if g = ''home''
           then Some \<lparr>members = (\<lambda>u. if u = ''alice'' then Some \<lparr>roles = {''patron''}\<rparr> else None)\<rparr>
           else None),
        isOwner = (\<lambda>u. u = ''root'')\<rparr>"
proof -
  let ?home = "\<lparr>members = (\<lambda>u. if u = ''alice'' then Some \<lparr>roles = {''patron''}\<rparr> else None)\<rparr>"
  let ?client = "\<lparr>guilds = (\<lambda>g. if g = ''home'' then Some ?home else None),
        isOwner = (\<lambda>u. u = ''root'')\<rparr>"
  let ?p = "\<lparr>premiumPatreonRoleId = Some ''patron'', primaryGuildId = Some ''home''\<rparr>"
  let ?config = "\<lparr>bot = None, optional = \<lparr>premium = Some ?p\<rparr>\<rparr>"
  let ?none = "\<lparr>bot = None, optional = \<lparr>premium = None\<rparr>\<rparr>"
  have stranger: "members ?home ''root'' = None" by simp
  have "premium (optional ?config) = Some ?p \<and> primaryGuildId ?p = Some ''home''
      \<and> guilds ?client ''home'' = Some ?home \<and> members ?home ''root'' = None"
    by simp
  with userHasPremium_requires_membership
    [where config = ?config and i = "''root''" and client = ?client]
  have owner: "\<not> userHasPremium ?config ''root'' ?client" by blast
  have alice: "userHasPremium ?config ''alice'' ?client"
    by (simp add: userHasPremium_def falsy_def)
  have "premium (optional ?none) = None" by simp
  with userHasPremium_requires_membership
    [where config = ?none and i = "''alice''" and client = ?client]
  have "\<not> userHasPremium ?none ''alice'' ?client" by blast
  with stranger owner alice show ?thesis by blast
qed

section \<open>Properties of the authentication service\<close>

lemma load_module_eq:
  "load_module json =
     \<lparr>clientSecret = declare_const [], clientId = declare_const [],
      console_error =
        [case json of
           None \<Rightarrow> CannotFindModule
         | Some config \<Rightarrow> TypeError]\<rparr>"
  by (simp add: load_module_def try_block_def assign_def declare_const_def
      split: option.splits)

text \<open>
  Claim C10. Whatever the configuration file holds, after the module is loaded
  \<open>clientSecret\<close> and \<open>clientId\<close> are still the empty string and one error has been
  logged; with a configuration that has a \<open>bot\<close> section the error is the TypeError of
  the assignment to the constant \<open>clientSecret\<close>. So for every code and redirect the
  Authorization header of the posted request is \<open>Basic\<close> followed by the encoding of
  a single colon.
\<close>

theorem authorization_header_is_constant:
  "getDiscordAccessToken encode post (load_module json) code redirect
     = post
        \<lparr>url = ''https://discordapp.com/api/oauth2/token?grant_type=authorization_code&code=''
             @ code @ ''&redirect_uri='' @ redirect,
         headers = [(''Authorization'', ''Basic '' @ encode '':'')]\<rparr>
   \<and> binding_value (clientSecret (load_module json)) = []
   \<and> binding_value (clientId (load_module json)) = []
   \<and> length (console_error (load_module json)) = 1
   \<and> (\<forall>config b. json = Some config \<and> bot config = Some b \<longrightarrow>
        assign (declare_const []) (bot_clientSecret b) = Inl TypeError
        \<and> console_error (load_module json) = [TypeError])"
  by (simp add: getDiscordAccessToken_def load_module_eq declare_const_def assign_def)

text \<open>
  A configuration with a client id and a client secret: neither reaches the header.
\<close>

theorem authorization_header_witness:
  "\<forall>encode post.
     bot \<lparr>bot = Some \<lparr>bot_clientSecret = ''s3cret'', bot_clientId = ''4711''\<rparr>,
          optional = \<lparr>premium = None\<rparr>\<rparr>
       = Some \<lparr>bot_clientSecret = ''s3cret'', bot_clientId = ''4711''\<rparr>
     \<and> console_error (load_module (Some
          \<lparr>bot = Some \<lparr>bot_clientSecret = ''s3cret'', bot_clientId = ''4711''\<rparr>,
           optional = \<lparr>premium = None\<rparr>\<rparr>)) = [TypeError]
     \<and> getDiscordAccessToken encode (post :: http_request \<Rightarrow> string) (load_module (Some
          \<lparr>bot = Some \<lparr>bot_clientSecret = ''s3cret'', bot_clientId = ''4711''\<rparr>,
           optional = \<lparr>premium = None\<rparr>\<rparr>)) ''abc'' ''http://localhost/cb''
       = post
          \<lparr>url = ''https://discordapp.com/api/oauth2/token?grant_type=authorization_code&code=abc&redirect_uri=http://localhost/cb'',
           headers = [(''Authorization'', ''Basic '' @ encode '':'')]\<rparr>"
proof (intro allI)
  fix encode :: "string \<Rightarrow> string" and post :: "http_request \<Rightarrow> string"
  let ?b = "\<lparr>bot_clientSecret = ''s3cret'', bot_clientId = ''4711''\<rparr>"
  let ?config = "\<lparr>bot = Some ?b, optional = \<lparr>premium = None\<rparr>\<rparr>"
  note claim = authorization_header_is_constant
    [where encode = encode and post = post and json = "Some ?config"
       and code = "''abc''" and redirect = "''http://localhost/cb''"]
  have has_bot: "bot ?config = Some ?b" by simp
  with claim have logged: "console_error (load_module (Some ?config)) = [TypeError]"
    by blast
  from claim have "getDiscordAccessToken encode post (load_module (Some ?config))
        ''abc'' ''http://localhost/cb''
      = post
         \<lparr>url = ''https://discordapp.com/api/oauth2/token?grant_type=authorization_code&code=abc&redirect_uri=http://localhost/cb'',
          headers = [(''Authorization'', ''Basic '' @ encode '':'')]\<rparr>"
    by simp
  with has_bot logged show "bot ?config = Some ?b
     \<and> console_error (load_module (Some ?config)) = [TypeError]
     \<and> getDiscordAccessToken encode post (load_module (Some ?config))
          ''abc'' ''http://localhost/cb''
       = post
          \<lparr>url = ''https://discordapp.com/api/oauth2/token?grant_type=authorization_code&code=abc&redirect_uri=http://localhost/cb'',
           headers = [(''Authorization'', ''Basic '' @ encode '':'')]\<rparr>"
    by blast
qed


end
